theory Spec2Isabelle
  imports Complex_Main "HOL-Library.Multiset"
begin

section \<open>ImgConvNets: configuration, errors and numeric conventions\<close>

text \<open>
  The development embeds \<^verbatim>\<open>misc/imgconvnets.py\<close>. Python floats are abstracted
  to \<^typ>\<open>real\<close> and decimal literals to the rationals they denote; Python integers
  are \<^typ>\<open>int\<close>. Exceptions are values of the type \<open>error\<close>.
\<close>

datatype error = AssertionError | ValueError | ZeroDivisionError | IndexError | IOError

record ImgConvNets =
  model :: string
  model_scope :: string
  img_height :: int
  img_width :: int
  class_count :: int
  keep_prob :: real
  learning_rate :: real
  lr_adaptive :: bool
  batch_size :: int
  num_epoches :: int

subsection \<open>The learning-rate schedule\<close>

definition get_learning_rate :: "ImgConvNets \<Rightarrow> real \<Rightarrow> real" where
  "get_learning_rate self last_accu =
     (if \<not> lr_adaptive self then learning_rate self
      else if last_accu \<ge> 99.92 then 9.2 / 10 ^ 5
      else if last_accu \<ge> 99.84 then 1 / 10 ^ 4
      else if last_accu \<ge> 99.76 then 1.2 / 10 ^ 4
      else if last_accu \<ge> 99.68 then 1.6 / 10 ^ 4
      else if last_accu \<ge> 99.60 then 2 / 10 ^ 4
      else if last_accu \<ge> 99.50 then 2.4 / 10 ^ 4
      else if last_accu \<ge> 99.00 then 3.2 / 10 ^ 4
      else 4 / 10 ^ 4)"

text \<open>
  The reference function in the words of the specification: a table of
  (threshold, rate) pairs scanned in order, the first threshold reached by the
  accuracy deciding the rate, with a default when none is reached.
\<close>

definition reference_schedule :: "(real \<times> real) list" where
  "reference_schedule =
     [(99.92, 9.2 / 10 ^ 5), (99.84, 1 / 10 ^ 4), (99.76, 1.2 / 10 ^ 4),
      (99.68, 1.6 / 10 ^ 4), (99.60, 2 / 10 ^ 4), (99.50, 2.4 / 10 ^ 4),
      (99.00, 3.2 / 10 ^ 4)]"

fun first_match :: "(real \<times> real) list \<Rightarrow> real \<Rightarrow> real \<Rightarrow> real" where
  "first_match [] dflt a = dflt"
| "first_match ((t, r) # rest) dflt a = (if a \<ge> t then r else first_match rest dflt a)"

definition reference_learning_rate :: "bool \<Rightarrow> real \<Rightarrow> real \<Rightarrow> real" where
  "reference_learning_rate adaptive lr last_accu =
     (if adaptive then first_match reference_schedule (4 / 10 ^ 4) last_accu else lr)"

subsection \<open>Slicing and batches\<close>

text \<open>
  Python's \<^verbatim>\<open>%\<close> takes the sign of the divisor, as \<open>mod\<close> on \<^typ>\<open>int\<close> does,
  and raises on a zero divisor.
\<close>

definition py_mod :: "int \<Rightarrow> int \<Rightarrow> error + int" where
  "py_mod a b = (if b = 0 then Inl ZeroDivisionError else Inr (a mod b))"

text \<open>
  A slice bound: a negative bound counts from the end, and every bound is clamped
  to the range of the sequence.
\<close>

definition slice_index :: "nat \<Rightarrow> int \<Rightarrow> nat" where
  "slice_index n i = (if i < 0 then nat (max 0 (int n + i)) else min n (nat i))"

definition py_slice :: "'a list \<Rightarrow> int \<Rightarrow> int \<Rightarrow> 'a list" where
  "py_slice xs i j =
     (let a = slice_index (length xs) i; b = slice_index (length xs) j
      in take (b - a) (drop a xs))"

definition py_slice_from :: "'a list \<Rightarrow> int \<Rightarrow> 'a list" where
  "py_slice_from xs i = drop (slice_index (length xs) i) xs"

definition py_slice_to :: "'a list \<Rightarrow> int \<Rightarrow> 'a list" where
  "py_slice_to xs j = take (slice_index (length xs) j) xs"

definition get_next_batch :: "ImgConvNets \<Rightarrow> 'a list \<Rightarrow> int \<Rightarrow> error + 'a list" where
  "get_next_batch self data_set start_index =
     (let cnt = int (length data_set) in
      case (if start_index \<ge> cnt then py_mod start_index cnt else Inr start_index) of
        Inl e \<Rightarrow> Inl e
      | Inr start \<Rightarrow>
          (let end = start + batch_size self in
           if end < cnt then Inr (py_slice data_set start end)
           else (case py_mod end cnt of
                   Inl e \<Rightarrow> Inl e
                 | Inr end' \<Rightarrow> Inr (py_slice_from data_set start @ py_slice_to data_set end'))))"

subsection \<open>Model selection in the constructor\<close>

text \<open>
  \<open>__init__\<close> asserts that the model is one of the three names and stores its
  arguments (the defaults of the optional parameters are the caller's business here).
\<close>

definition init :: "string \<Rightarrow> string \<Rightarrow> int \<Rightarrow> int \<Rightarrow> int \<Rightarrow> real \<Rightarrow> real \<Rightarrow> bool \<Rightarrow> int \<Rightarrow> int
                     \<Rightarrow> error + ImgConvNets" where
  "init m scope h w classes kp lr adaptive bs epochs =
     (if m = ''BASIC'' \<or> m = ''DCNN'' \<or> m = ''STCNN''
      then Inr \<lparr>model = m, model_scope = scope, img_height = h, img_width = w,
                class_count = classes, keep_prob = kp, learning_rate = lr,
                lr_adaptive = adaptive, batch_size = bs, num_epoches = epochs\<rparr>
      else Inl AssertionError)"

subsection \<open>Graphs of the tensor framework\<close>

text \<open>
  The framework's graph is kept as data: a tensor is the expression that the graph-building
  calls assemble. Shapes are lists of integers, with \<open>-1\<close> for an inferred dimension.
  The spatial transformer of \<^verbatim>\<open>misc.spatial_transformer\<close> is a graph node like
  the framework's own operations.
\<close>

datatype dtype = Float32 | Int32

datatype initial =
    Zeros "int list"
  | RandomNormal "int list" real real
  | TruncatedNormal "int list" real
  | Constant real "int list"
  | Values "real list"

datatype tensor =
    Placeholder dtype "string option"
  | Variable initial "string option"
  | Reshape tensor "int list"
  | MatMul tensor tensor
  | Add tensor tensor "string option"
  | Tanh tensor
  | Relu tensor
  | Dropout tensor tensor
  | Transformer tensor tensor "int \<times> int"
  | Conv2dOp tensor tensor "int list" string
  | MaxPoolOp tensor "int list" "int list" string
  | Softmax tensor
  | TopK tensor int
  | ToInt64 tensor
  | SparseSoftmaxCrossEntropy tensor tensor
  | ReduceMean tensor
  | InTopK tensor tensor int
  | Cast tensor dtype
  | AdamMinimize tensor tensor

definition conv2d :: "tensor \<Rightarrow> tensor \<Rightarrow> tensor" where
  "conv2d X W = Conv2dOp X W [1, 1, 1, 1] ''SAME''"

definition max_pool_2x2 :: "tensor \<Rightarrow> tensor" where
  "max_pool_2x2 X = MaxPoolOp X [1, 2, 2, 1] [1, 2, 2, 1] ''SAME''"

text \<open>Python's \<open>int\<close> of a float truncates towards zero.\<close>

definition py_int :: "real \<Rightarrow> int" where
  "py_int x = (if 0 \<le> x then \<lfloor>x\<rfloor> else \<lceil>x\<rceil>)"

definition para_cnt :: "ImgConvNets \<Rightarrow> int" where
  "para_cnt self =
     py_int ((real_of_int (img_height self) / 4) * (real_of_int (img_width self) / 4) * 64)"

definition build_inference_graph_stcnn :: "ImgConvNets \<Rightarrow> tensor \<Rightarrow> tensor \<Rightarrow> tensor" where
  "build_inference_graph_stcnn self images keep_prob_ph =
     (let shaped_images = Reshape images [-1, img_height self, img_width self, 1];
          num_batch = 64;
          W_fc_loc1 = Variable (Zeros [img_height self * img_width self, num_batch]) None;
          b_fc_loc1 = Variable (RandomNormal [num_batch] 0 0.01) None;
          h_fc_loc1 = Tanh (Add (MatMul images W_fc_loc1) b_fc_loc1 None);
          h_fc_loc1_drop = Dropout h_fc_loc1 keep_prob_ph;
          initial = [1, 0, 0, 0, 1, 0];
          W_fc_loc2 = Variable (Zeros [num_batch, 6]) None;
          b_fc_loc2 = Variable (Values initial) (Some ''b_fc_loc2'');
          h_fc_loc2 = Tanh (Add (MatMul h_fc_loc1_drop W_fc_loc2) b_fc_loc2 None);
          out_size = (img_height self, img_width self);
          h_trans = Transformer shaped_images h_fc_loc2 out_size;
          W_conv11 = Variable (TruncatedNormal [3, 3, 1, 32] 0.1) (Some ''W_conv11'');
          b_conv11 = Variable (Constant 0.1 [32]) (Some ''b_conv11'');
          h_conv11 = Relu (Add (conv2d h_trans W_conv11) b_conv11 None);
          W_conv12 = Variable (TruncatedNormal [3, 3, 32, 32] 0.1) (Some ''W_conv12'');
          b_conv12 = Variable (Constant 0.1 [32]) (Some ''b_conv12'');
          h_conv12 = Relu (Add (conv2d h_conv11 W_conv12) b_conv12 None);
          h_pool1 = max_pool_2x2 h_conv12;
          W_conv21 = Variable (TruncatedNormal [3, 3, 32, 64] 0.1) (Some ''W_conv21'');
          b_conv21 = Variable (Constant 0.1 [64]) (Some ''b_conv21'');
          h_conv21 = Relu (Add (conv2d h_pool1 W_conv21) b_conv21 None);
          W_conv22 = Variable (TruncatedNormal [3, 3, 64, 64] 0.1) (Some ''W_conv22'');
          b_conv22 = Variable (Constant 0.1 [64]) (Some ''b_conv22'');
          h_conv22 = Relu (Add (conv2d h_conv21 W_conv22) b_conv22 None);
          h_pool2 = max_pool_2x2 h_conv22;
          h_pool2_flat = Reshape h_pool2 [-1, para_cnt self];
          W_fc1 = Variable (TruncatedNormal [para_cnt self, 1024] 0.1) (Some ''W_fc1'');
          b_fc1 = Variable (Constant 0.1 [1024]) (Some ''b_fc1'');
          h_fc1 = Relu (Add (MatMul h_pool2_flat W_fc1) b_fc1 None);
          h_fc1_drop = Dropout h_fc1 keep_prob_ph;
          W_fc2 = Variable (TruncatedNormal [1024, class_count self] 0.1) (Some ''W_fc2'');
          b_fc2 = Variable (Constant 0.1 [class_count self]) (Some ''b_fc2'')
      in Add (MatMul h_fc1_drop W_fc2) b_fc2 (Some ''logits''))"

definition build_inference_graph_dcnn :: "ImgConvNets \<Rightarrow> tensor \<Rightarrow> tensor \<Rightarrow> tensor" where
  "build_inference_graph_dcnn self images keep_prob_ph =
     (let shaped_images = Reshape images [-1, img_height self, img_width self, 1];
          W_conv11 = Variable (TruncatedNormal [3, 3, 1, 32] 0.1) (Some ''W_conv11'');
          b_conv11 = Variable (Constant 0.1 [32]) (Some ''b_conv11'');
          h_conv11 = Relu (Add (conv2d shaped_images W_conv11) b_conv11 None);
          W_conv12 = Variable (TruncatedNormal [1, 3, 32, 32] 0.1) (Some ''W_conv12'');
          b_conv12 = Variable (Constant 0.1 [32]) (Some ''b_conv12'');
          h_conv12 = Relu (Add (conv2d h_conv11 W_conv12) b_conv12 None);
          W_conv13 = Variable (TruncatedNormal [3, 1, 32, 32] 0.1) (Some ''W_conv13'');
          b_conv13 = Variable (Constant 0.1 [32]) (Some ''b_conv13'');
          h_conv13 = Relu (Add (conv2d h_conv12 W_conv13) b_conv13 None);
          W_conv14 = Variable (TruncatedNormal [3, 3, 32, 32] 0.1) (Some ''W_conv14'');
          b_conv14 = Variable (Constant 0.1 [32]) (Some ''b_conv14'');
          h_conv14 = Relu (Add (conv2d h_conv13 W_conv14) b_conv14 None);
          h_pool1 = max_pool_2x2 h_conv14;
          W_conv21 = Variable (TruncatedNormal [3, 3, 32, 64] 0.1) (Some ''W_conv21'');
          b_conv21 = Variable (Constant 0.1 [64]) (Some ''b_conv21'');
          h_conv21 = Relu (Add (conv2d h_pool1 W_conv21) b_conv21 None);
          W_conv22 = Variable (TruncatedNormal [1, 3, 64, 64] 0.1) (Some ''W_conv22'');
          b_conv22 = Variable (Constant 0.1 [64]) (Some ''b_conv22'');
          h_conv22 = Relu (Add (conv2d h_conv21 W_conv22) b_conv22 None);
          W_conv23 = Variable (TruncatedNormal [3, 1, 64, 64] 0.1) (Some ''W_conv23'');
          b_conv23 = Variable (Constant 0.1 [64]) (Some ''b_conv23'');
          h_conv23 = Relu (Add (conv2d h_conv22 W_conv23) b_conv23 None);
          W_conv24 = Variable (TruncatedNormal [3, 3, 64, 64] 0.1) (Some ''W_conv24'');
          b_conv24 = Variable (Constant 0.1 [64]) (Some ''b_conv24'');
          h_conv24 = Relu (Add (conv2d h_conv23 W_conv24) b_conv24 None);
          h_pool2 = max_pool_2x2 h_conv24;
          h_pool2_flat = Reshape h_pool2 [-1, para_cnt self];
          W_fc1 = Variable (TruncatedNormal [para_cnt self, 1024] 0.1) (Some ''W_fc1'');
          b_fc1 = Variable (Constant 0.1 [1024]) (Some ''b_fc1'');
          h_fc1 = Relu (Add (MatMul h_pool2_flat W_fc1) b_fc1 None);
          W_fc2 = Variable (TruncatedNormal [1024, 1024] 0.1) (Some ''W_fc2'');
          b_fc2 = Variable (Constant 0.1 [1024]) (Some ''b_fc2'');
          h_fc2 = Relu (Add (MatMul h_fc1 W_fc2) b_fc2 None);
          h_fc2_drop = Dropout h_fc2 keep_prob_ph;
          W_fc3 = Variable (TruncatedNormal [1024, class_count self] 0.1) (Some ''W_fc3'');
          b_fc3 = Variable (Constant 0.1 [class_count self]) (Some ''b_fc3'')
      in Add (MatMul h_fc2_drop W_fc3) b_fc3 (Some ''logits''))"

definition build_inference_graph_basic :: "ImgConvNets \<Rightarrow> tensor \<Rightarrow> tensor \<Rightarrow> tensor" where
  "build_inference_graph_basic self images keep_prob_ph =
     (let shaped_images = Reshape images [-1, img_height self, img_width self, 1];
          W_conv11 = Variable (TruncatedNormal [3, 3, 1, 32] 0.1) (Some ''W_conv11'');
          b_conv11 = Variable (Constant 0.1 [32]) (Some ''b_conv11'');
          h_conv11 = Relu (Add (conv2d shaped_images W_conv11) b_conv11 None);
          W_conv12 = Variable (TruncatedNormal [3, 3, 32, 32] 0.1) (Some ''W_conv12'');
          b_conv12 = Variable (Constant 0.1 [32]) (Some ''b_conv12'');
          h_conv12 = Relu (Add (conv2d h_conv11 W_conv12) b_conv12 None);
          h_pool1 = max_pool_2x2 h_conv12;
          W_conv21 = Variable (TruncatedNormal [3, 3, 32, 64] 0.1) (Some ''W_conv21'');
          b_conv21 = Variable (Constant 0.1 [64]) (Some ''b_conv21'');
          h_conv21 = Relu (Add (conv2d h_pool1 W_conv21) b_conv21 None);
          W_conv22 = Variable (TruncatedNormal [3, 3, 64, 64] 0.1) (Some ''W_conv22'');
          b_conv22 = Variable (Constant 0.1 [64]) (Some ''b_conv22'');
          h_conv22 = Relu (Add (conv2d h_conv21 W_conv22) b_conv22 None);
          h_pool2 = max_pool_2x2 h_conv22;
          h_pool2_flat = Reshape h_pool2 [-1, para_cnt self];
          W_fc1 = Variable (TruncatedNormal [para_cnt self, 1024] 0.1) (Some ''W_fc1'');
          b_fc1 = Variable (Constant 0.1 [1024]) (Some ''b_fc1'');
          h_fc1 = Relu (Add (MatMul h_pool2_flat W_fc1) b_fc1 None);
          h_fc1_drop = Dropout h_fc1 keep_prob_ph;
          W_fc2 = Variable (TruncatedNormal [1024, class_count self] 0.1) (Some ''W_fc2'');
          b_fc2 = Variable (Constant 0.1 [class_count self]) (Some ''b_fc2'')
      in Add (MatMul h_fc1_drop W_fc2) b_fc2 (Some ''logits''))"

definition build_training_graph :: "tensor \<Rightarrow> tensor \<Rightarrow> tensor \<Rightarrow> tensor \<times> tensor \<times> tensor" where
  "build_training_graph logits labels lr =
     (let labels64 = ToInt64 labels;
          cross_entropy = SparseSoftmaxCrossEntropy logits labels64;
          loss = ReduceMean cross_entropy;
          train_op = AdamMinimize lr loss;
          correct_predict = InTopK logits labels64 1;
          accuracy = ReduceMean (Cast correct_predict Float32)
      in (train_op, loss, accuracy))"

text \<open>
  Summaries of a graph, read off the expression from the inputs to the output: the
  kernel shapes of its convolutions with the pooling steps between them, the input of
  each convolution, and the spatial-transformer nodes.
\<close>

datatype layer = Conv "int list" | Pool

fun var_shape :: "tensor \<Rightarrow> int list" where
  "var_shape (Variable (Zeros sh) _) = sh"
| "var_shape (Variable (RandomNormal sh _ _) _) = sh"
| "var_shape (Variable (TruncatedNormal sh _) _) = sh"
| "var_shape (Variable (Constant _ sh) _) = sh"
| "var_shape (Variable (Values vs) _) = [int (length vs)]"
| "var_shape _ = []"

fun conv_layers :: "tensor \<Rightarrow> layer list" where
  "conv_layers (Conv2dOp X W _ _) = conv_layers X @ [Conv (var_shape W)]"
| "conv_layers (MaxPoolOp X _ _ _) = conv_layers X @ [Pool]"
| "conv_layers (Reshape X _) = conv_layers X"
| "conv_layers (MatMul X W) = conv_layers X @ conv_layers W"
| "conv_layers (Add X b _) = conv_layers X @ conv_layers b"
| "conv_layers (Tanh X) = conv_layers X"
| "conv_layers (Relu X) = conv_layers X"
| "conv_layers (Dropout X k) = conv_layers X"
| "conv_layers (Transformer X theta _) = conv_layers X @ conv_layers theta"
| "conv_layers _ = []"

fun conv_inputs :: "tensor \<Rightarrow> tensor list" where
  "conv_inputs (Conv2dOp X W _ _) = conv_inputs X @ [X]"
| "conv_inputs (MaxPoolOp X _ _ _) = conv_inputs X"
| "conv_inputs (Reshape X _) = conv_inputs X"
| "conv_inputs (MatMul X W) = conv_inputs X @ conv_inputs W"
| "conv_inputs (Add X b _) = conv_inputs X @ conv_inputs b"
| "conv_inputs (Tanh X) = conv_inputs X"
| "conv_inputs (Relu X) = conv_inputs X"
| "conv_inputs (Dropout X k) = conv_inputs X"
| "conv_inputs (Transformer X theta _) = conv_inputs X @ conv_inputs theta"
| "conv_inputs _ = []"

fun transformers :: "tensor \<Rightarrow> tensor list" where
  "transformers (Transformer X theta sz) =
     transformers X @ transformers theta @ [Transformer X theta sz]"
| "transformers (Conv2dOp X W _ _) = transformers X @ transformers W"
| "transformers (MaxPoolOp X _ _ _) = transformers X"
| "transformers (Reshape X _) = transformers X"
| "transformers (MatMul X W) = transformers X @ transformers W"
| "transformers (Add X b _) = transformers X @ transformers b"
| "transformers (Tanh X) = transformers X"
| "transformers (Relu X) = transformers X"
| "transformers (Dropout X k) = transformers X @ transformers k"
| "transformers _ = []"

subsection \<open>Collections and the graph that \<open>train\<close> builds\<close>

text \<open>
  A graph carries its collections: \<open>add_to_collection\<close> appends a tensor under a key,
  \<open>get_collection\<close> returns the tensors of a key in the order they were added.
\<close>

record graph =
  collections :: "(string \<times> tensor) list"

definition add_to_collection :: "graph \<Rightarrow> string \<Rightarrow> tensor \<Rightarrow> graph" where
  "add_to_collection g key t = g\<lparr>collections := collections g @ [(key, t)]\<rparr>"

definition get_collection :: "graph \<Rightarrow> string \<Rightarrow> tensor list" where
  "get_collection g key = map snd (filter (\<lambda>kv. fst kv = key) (collections g))"

definition images_placeholder :: tensor where
  "images_placeholder = Placeholder Float32 (Some ''images_placeholder'')"

definition labels_placeholder :: tensor where
  "labels_placeholder = Placeholder Int32 None"

definition keep_prob_placeholder :: tensor where
  "keep_prob_placeholder = Placeholder Float32 (Some ''keep_prob_placeholder'')"

definition learning_rate_placeholder :: tensor where
  "learning_rate_placeholder = Placeholder Float32 None"

text \<open>The choice of the builder in \<open>train\<close>.\<close>

definition inference_graph :: "ImgConvNets \<Rightarrow> tensor" where
  "inference_graph self =
     (if model self = ''STCNN''
      then build_inference_graph_stcnn self images_placeholder keep_prob_placeholder
      else if model self = ''DCNN''
      then build_inference_graph_dcnn self images_placeholder keep_prob_placeholder
      else build_inference_graph_basic self images_placeholder keep_prob_placeholder)"

text \<open>
  The graph part of \<open>train\<close>: the inference and training graphs, and the three
  tensors registered under keys prefixed with the model scope.
\<close>

definition def_graph :: "ImgConvNets \<Rightarrow> graph" where
  "def_graph self =
     (let logits = inference_graph self;
          (train_op, loss, accuracy) =
             build_training_graph logits labels_placeholder learning_rate_placeholder;
          g0 = \<lparr>collections = []\<rparr>;
          g1 = add_to_collection g0 (model_scope self @ ''images'') images_placeholder;
          g2 = add_to_collection g1 (model_scope self @ ''keep_prob'') keep_prob_placeholder;
          g3 = add_to_collection g2 (model_scope self @ ''logits'') logits
      in g3)"

subsection \<open>Arrays, the shuffled training set\<close>

text \<open>
  A two-dimensional array is its number of columns and its rows; the shape is the number
  of rows and the number of columns. An array in general is two-dimensional or has
  another number of dimensions, given with its elements (a vector of three labels is
  \<open>ArrayN 1 [l1, l2, l3]\<close>). Unpacking the shape into rows and columns raises
  \<open>ValueError\<close> unless the array is two-dimensional. Appending along axis 1 to a
  two-dimensional array joins the rows pairwise and raises \<open>ValueError\<close> unless the
  other array is two-dimensional with the same number of rows.
\<close>

record ndarray =
  ncols :: nat
  data :: "real list list"

datatype array = Array2 ndarray | ArrayN nat "real list"

definition well_shaped :: "ndarray \<Rightarrow> bool" where
  "well_shaped a = list_all (\<lambda>r. length r = ncols a) (data a)"

definition shape :: "ndarray \<Rightarrow> nat \<times> nat" where
  "shape a = (length (data a), ncols a)"

definition np_append_axis1 :: "ndarray \<Rightarrow> array \<Rightarrow> error + ndarray" where
  "np_append_axis1 a b =
     (case b of
        ArrayN d flat \<Rightarrow> Inl ValueError
      | Array2 m \<Rightarrow>
          if length (data a) \<noteq> length (data m) then Inl ValueError
          else Inr \<lparr>ncols = ncols a + ncols m, data = map2 (@) (data a) (data m)\<rparr>)"

text \<open>
  The random permutation of the rows is driven by the draws of the random state: each
  draw picks the next row among those that remain; rows left over when the draws are
  used up keep their order.
\<close>

fun permutation :: "nat list \<Rightarrow> 'a list \<Rightarrow> 'a list" where
  "permutation _ [] = []"
| "permutation [] xs = xs"
| "permutation (r # rs) xs =
     (let j = r mod length xs
      in xs ! j # permutation rs (take j xs @ drop (Suc j) xs))"

definition train_set_of :: "nat list \<Rightarrow> ndarray \<Rightarrow> array \<Rightarrow> error + real list list" where
  "train_set_of draws img_features true_labels =
     (case np_append_axis1 img_features true_labels of
        Inl e \<Rightarrow> Inl e
      | Inr appended \<Rightarrow> Inr (permutation draws (data appended)))"

subsection \<open>Sessions and the training loop\<close>

text \<open>
  The session is the framework's: its state is a type parameter, and its operations are
  the fields of \<open>tf\<close>. One optimisation step consumes a feed and returns the new
  session state, the loss and the accuracy of the batch. The calls into the framework are
  taken not to raise.
\<close>

record feed =
  images_feed :: "real list list"
  labels_feed :: "real list"
  lr_feed :: real
  keep_prob_feed :: real

datatype feed_value = Matrix "real list list" | Scalar real

record ('s, 'r) tf =
  init_session :: "graph \<Rightarrow> 's"
  run_train :: "'s \<Rightarrow> feed \<Rightarrow> 's \<times> real \<times> real"
  run_eval :: "'s \<Rightarrow> tensor \<Rightarrow> (tensor \<times> feed_value) list \<Rightarrow> 'r"

text \<open>
  What \<open>train\<close> does to the world is a list of events, each loop event with the epoch
  in which it happens: an optimisation step with its step number and feed, a checkpoint
  with its file and optional global step, and the printed line with the learning rate,
  the average loss and the minimum, mean and maximum accuracy in percent.
\<close>

datatype 's event =
    GraphBuilt graph
  | SessionCreated 's
  | Run int int feed
  | Saved int 's string "int option"
  | Printed int real real real real real

definition os_path_join :: "string \<Rightarrow> string \<Rightarrow> string" where
  "os_path_join a b =
     (if b \<noteq> [] \<and> hd b = CHR ''/'' then b
      else if a = [] \<or> last a = CHR ''/'' then a @ b
      else a @ ''/'' @ b)"

definition py_truediv :: "int \<Rightarrow> int \<Rightarrow> error + real" where
  "py_truediv a b = (if b = 0 then Inl ZeroDivisionError else Inr (real_of_int a / real_of_int b))"

definition py_range :: "int \<Rightarrow> int \<Rightarrow> int list" where
  "py_range a b = [a..b - 1]"

definition py_min :: "real list \<Rightarrow> real" where
  "py_min xs = fold min (tl xs) (hd xs)"

definition py_max :: "real list \<Rightarrow> real" where
  "py_max xs = fold max (tl xs) (hd xs)"

text \<open>
  The inner loop over the steps of one epoch. It returns the error raised, if any, the
  session, the two lists and the events.
\<close>

fun step_loop :: "('s, 'r) tf \<Rightarrow> ImgConvNets \<Rightarrow> real list list \<Rightarrow> nat \<Rightarrow> real \<Rightarrow> int \<Rightarrow>
                  int list \<Rightarrow> 's \<Rightarrow> real list \<Rightarrow> real list \<Rightarrow>
                  error option \<times> 's \<times> real list \<times> real list \<times> 's event list" where
  "step_loop tf self train_set cols lr epoch [] sess loss_list accu_list =
     (None, sess, loss_list, accu_list, [])"
| "step_loop tf self train_set cols lr epoch (step # steps) sess loss_list accu_list =
     (case get_next_batch self train_set (step * batch_size self) of
        Inl e \<Rightarrow> (Some e, sess, loss_list, accu_list, [])
      | Inr batch_data \<Rightarrow>
          (let fd = \<lparr>images_feed = map (take cols) batch_data,
                     labels_feed = concat (map (drop cols) batch_data),
                     lr_feed = lr, keep_prob_feed = keep_prob self\<rparr>;
               (sess', loss_val, accu_val) = run_train tf sess fd;
               (err, sess'', loss_list', accu_list', evs) =
                  step_loop tf self train_set cols lr epoch steps sess'
                    (loss_list @ [loss_val]) (accu_list @ [accu_val])
           in (err, sess'', loss_list', accu_list', Run epoch step fd # evs)))"

text \<open>
  The body of the epoch loop ends in one of three ways: an exception, the \<open>break\<close>, or
  the next iteration with the session and the mean accuracy of this epoch.
\<close>

datatype 's outcome = Raise error | Break | Next 's real

definition epoch_body :: "('s, 'r) tf \<Rightarrow> ImgConvNets \<Rightarrow> real list list \<Rightarrow> nat \<Rightarrow> string \<Rightarrow> int \<Rightarrow>
                   int \<Rightarrow> 's \<Rightarrow> real \<Rightarrow> 's outcome \<times> 's event list" where
  "epoch_body tf self train_set cols save_file epoch_steps epoch sess last_accu =
     (let lr = get_learning_rate self last_accu in
      case step_loop tf self train_set cols lr epoch (py_range 0 epoch_steps) sess [] [] of
        (Some e, sess', loss_list, accu_list, evs) \<Rightarrow> (Raise e, evs)
      | (None, sess', loss_list, accu_list, evs) \<Rightarrow>
          if accu_list = [] then (Raise ZeroDivisionError, evs)
          else
            (let mean_accu = sum_list accu_list * 100 / real (length accu_list);
                 saves =
                   (if mean_accu \<ge> 99.68 \<and> mean_accu > last_accu
                    then [Saved epoch sess' save_file (Some epoch)]
                    else if epoch = num_epoches self - 1
                    then [Saved epoch sess' save_file None]
                    else []);
                 line = Printed epoch lr (sum_list loss_list / real (length loss_list))
                          (py_min accu_list * 100) mean_accu (py_max accu_list * 100)
             in if mean_accu \<ge> 99.99 then (Break, evs @ saves @ [line])
                else (Next sess' mean_accu, evs @ saves @ [line])))"

fun epoch_loop :: "('s, 'r) tf \<Rightarrow> ImgConvNets \<Rightarrow> real list list \<Rightarrow> nat \<Rightarrow> string \<Rightarrow> int \<Rightarrow>
                   int list \<Rightarrow> 's \<Rightarrow> real \<Rightarrow> error option \<times> 's event list" where
  "epoch_loop tf self train_set cols save_file epoch_steps [] sess last_accu = (None, [])"
| "epoch_loop tf self train_set cols save_file epoch_steps (epoch # epochs) sess last_accu =
     (case epoch_body tf self train_set cols save_file epoch_steps epoch sess last_accu of
        (Raise e, evs) \<Rightarrow> (Some e, evs)
      | (Break, evs) \<Rightarrow> (None, evs)
      | (Next sess' mean_accu, evs) \<Rightarrow>
          (let (err, rest) =
                 epoch_loop tf self train_set cols save_file epoch_steps epochs sess' mean_accu
           in (err, evs @ rest)))"

text \<open>
  \<open>train\<close>. Unpacking the shape of the features raises \<open>ValueError\<close> unless they are
  two-dimensional; then comes the size check, the appending and shuffling, the graph, the
  session and the loop.
\<close>

definition train :: "('s, 'r) tf \<Rightarrow> nat list \<Rightarrow> ImgConvNets \<Rightarrow> array \<Rightarrow> array \<Rightarrow> string \<Rightarrow> string \<Rightarrow>
                     error option \<times> 's event list" where
  "train tf draws self img_features true_labels train_dir result_file =
     (case img_features of
        ArrayN d flat \<Rightarrow> (Some ValueError, [])
      | Array2 features \<Rightarrow>
     (let (rows, cols) = shape features in
      if int cols \<noteq> img_height self * img_width self then (Some ValueError, [])
      else
        (case train_set_of draws features true_labels of
           Inl e \<Rightarrow> (Some e, [])
         | Inr train_set \<Rightarrow>
             (let g = def_graph self;
                  sess = init_session tf g;
                  setup = [GraphBuilt g, SessionCreated sess];
                  save_file = os_path_join train_dir result_file
              in case py_truediv (int (length train_set)) (batch_size self) of
                   Inl e \<Rightarrow> (Some e, setup)
                 | Inr q \<Rightarrow>
                     (let epoch_steps = \<lceil>q\<rceil>;
                          (err, evs) =
                             epoch_loop tf self train_set cols save_file epoch_steps
                               (py_range 1 (num_epoches self + 1)) sess 0
                      in (err, setup @ evs))))))"

subsection \<open>Prediction\<close>

text \<open>
  The checkpoint files: the meta file holds the graph, the checkpoint itself the session
  state. A missing file raises; the first element of an empty collection raises
  \<open>IndexError\<close>.
\<close>

record 's files =
  meta_files :: "string \<rightharpoonup> graph"
  checkpoint_files :: "string \<rightharpoonup> 's"

definition first :: "'a list \<Rightarrow> error + 'a" where
  "first xs = (case xs of [] \<Rightarrow> Inl IndexError | x # _ \<Rightarrow> Inr x)"

definition predict :: "('s, 'r) tf \<Rightarrow> 's files \<Rightarrow> string \<Rightarrow> string \<Rightarrow> string \<Rightarrow> real list list \<Rightarrow> int \<Rightarrow>
                       error + 'r" where
  "predict tf fs scope result_dir result_file img_features k =
     (case meta_files fs (os_path_join result_dir (result_file @ ''.meta'')) of
        None \<Rightarrow> Inl IOError
      | Some g \<Rightarrow>
     (case checkpoint_files fs (os_path_join result_dir result_file) of
        None \<Rightarrow> Inl IOError
      | Some sess \<Rightarrow>
     (case first (get_collection g (scope @ ''logits'')) of
        Inl e \<Rightarrow> Inl e
      | Inr logits \<Rightarrow>
     (case first (get_collection g (scope @ ''images'')) of
        Inl e \<Rightarrow> Inl e
      | Inr images_ph \<Rightarrow>
     (case first (get_collection g (scope @ ''keep_prob'')) of
        Inl e \<Rightarrow> Inl e
      | Inr keep_prob_ph \<Rightarrow>
          (let eval_op = TopK (Softmax logits) k
           in Inr (run_eval tf sess eval_op
                     [(images_ph, Matrix img_features), (keep_prob_ph, Scalar 1.0)])))))))"

subsection \<open>Reading the events\<close>

text \<open>
  The optimisation steps as (epoch, step) pairs, their feeds, the completed epochs with
  their mean accuracy (one printed line each), and the checkpoints as (epoch, global
  step) pairs, each in the order of the events.
\<close>

definition all_runs :: "'s event list \<Rightarrow> (int \<times> int) list" where
  "all_runs evs = concat (map (\<lambda>ev. case ev of Run e s fd \<Rightarrow> [(e, s)] | _ \<Rightarrow> []) evs)"

definition feeds :: "'s event list \<Rightarrow> feed list" where
  "feeds evs = concat (map (\<lambda>ev. case ev of Run e s fd \<Rightarrow> [fd] | _ \<Rightarrow> []) evs)"

definition means :: "'s event list \<Rightarrow> (int \<times> real) list" where
  "means evs =
     concat (map (\<lambda>ev. case ev of Printed e lr lo mi m ma \<Rightarrow> [(e, m)] | _ \<Rightarrow> []) evs)"

definition saves :: "'s event list \<Rightarrow> (int \<times> int option) list" where
  "saves evs = concat (map (\<lambda>ev. case ev of Saved e sess f g \<Rightarrow> [(e, g)] | _ \<Rightarrow> []) evs)"

text \<open>
  The checkpoint rule in the words of the specification: the mean accuracy is at least
  99.68 and above that of the previous epoch, or the epoch is \<open>num_epoches - 1\<close>.
\<close>

definition checkpoint_due :: "ImgConvNets \<Rightarrow> real \<Rightarrow> int \<Rightarrow> real \<Rightarrow> bool" where
  "checkpoint_due self prev e m = ((m \<ge> 99.68 \<and> m > prev) \<or> e = num_epoches self - 1)"

text \<open>
  The checkpoints that the loop body writes in an epoch with mean accuracy \<open>m\<close> after a
  previous mean accuracy \<open>prev\<close>, as (epoch, global step) pairs.
\<close>

definition save_list :: "ImgConvNets \<Rightarrow> real \<Rightarrow> int \<Rightarrow> real \<Rightarrow> (int \<times> int option) list" where
  "save_list self prev e m =
     (if m \<ge> 99.68 \<and> m > prev then [(e, Some e)]
      else if e = num_epoches self - 1 then [(e, None)]
      else [])"

text \<open>
  A feed comes from the training set when its images and labels are the two sides, split
  at column \<open>cols\<close>, of a list of rows of the training set.
\<close>

definition feed_from :: "real list list \<Rightarrow> nat \<Rightarrow> feed \<Rightarrow> bool" where
  "feed_from train_set cols fd =
     (\<exists>batch. set batch \<subseteq> set train_set
        \<and> images_feed fd = map (take cols) batch
        \<and> labels_feed fd = concat (map (drop cols) batch))"

text \<open>
  Along the completed epochs, each with its mean accuracy, and starting from a previous
  mean accuracy: the checkpoints that the loop writes, and the epochs at which the rule
  of the specification asks for one.
\<close>

fun expected_saves :: "ImgConvNets \<Rightarrow> real \<Rightarrow> (int \<times> real) list \<Rightarrow> (int \<times> int option) list" where
  "expected_saves self prev [] = []"
| "expected_saves self prev ((e, m) # ms) = save_list self prev e m @ expected_saves self m ms"

fun checkpoints :: "ImgConvNets \<Rightarrow> real \<Rightarrow> (int \<times> real) list \<Rightarrow> int list" where
  "checkpoints self prev [] = []"
| "checkpoints self prev ((e, m) # ms) =
     (if checkpoint_due self prev e m then [e] else []) @ checkpoints self m ms"

text \<open>
  A feed keeps the pairing of the input when it has as many labels as images and every
  image row with its label, taken at the same position, is a (feature row, label row)
  pair of the input arrays at one and the same row index.
\<close>

definition paired_feed :: "ndarray \<Rightarrow> ndarray \<Rightarrow> feed \<Rightarrow> bool" where
  "paired_feed X Y fd =
     (length (labels_feed fd) = length (images_feed fd)
      \<and> list_all (\<lambda>p. p \<in> set (zip (data X) (data Y)))
            (zip (images_feed fd) (map (\<lambda>l. [l]) (labels_feed fd))))"

text \<open>The number of steps of an epoch: the rows over the batch size, rounded up.\<close>

definition steps_per_epoch :: "ImgConvNets \<Rightarrow> ndarray \<Rightarrow> int" where
  "steps_per_epoch self img_features =
     \<lceil>real (length (data img_features)) / real_of_int (batch_size self)\<rceil>"

subsection \<open>Concrete inputs\<close>

text \<open>A small configuration and a framework whose session counts the steps run.\<close>

definition cfg0 :: ImgConvNets where
  "cfg0 = \<lparr>model = ''BASIC'', model_scope = ''m'', img_height = 1, img_width = 2,
           class_count = 2, keep_prob = 0.5, learning_rate = 1 / 10 ^ 4, lr_adaptive = True,
           batch_size = 2, num_epoches = 3\<rparr>"

definition cfg_dcnn :: ImgConvNets where
  "cfg_dcnn = \<lparr>model = ''DCNN'', model_scope = ''m'', img_height = 1, img_width = 2,
               class_count = 2, keep_prob = 0.5, learning_rate = 0.1, lr_adaptive = True,
               batch_size = 2, num_epoches = 3\<rparr>"

definition tf0 :: "(nat, tensor \<times> (tensor \<times> feed_value) list) tf" where
  "tf0 = \<lparr>init_session = (\<lambda>g. 0), run_train = (\<lambda>s fd. (Suc s, 1, 0.5)),
          run_eval = (\<lambda>s t fd. (t, fd))\<rparr>"

definition X0 :: ndarray where
  "X0 = \<lparr>ncols = 2, data = [[1, 2], [3, 4], [5, 6]]\<rparr>"

definition Y0 :: ndarray where
  "Y0 = \<lparr>ncols = 1, data = [[0], [1], [0]]\<rparr>"

definition Y1 :: ndarray where
  "Y1 = \<lparr>ncols = 1, data = [[0]]\<rparr>"

definition Y2 :: ndarray where
  "Y2 = \<lparr>ncols = 2, data = [[0, 7], [1, 8], [0, 9]]\<rparr>"

definition y_vector :: array where
  "y_vector = ArrayN 1 [0, 1, 0]"

definition fs0 :: "nat files" where
  "fs0 = \<lparr>meta_files = [''dir/file.meta'' \<mapsto> def_graph cfg0],
          checkpoint_files = [''dir/file'' \<mapsto> 4]\<rparr>"

section \<open>Properties of the learning-rate schedule\<close>

text \<open>
  C1. For every accuracy the schedule computed by the if-chain of
  \<open>_get_learning_rate\<close> equals the reference piecewise function: the configured
  rate when the schedule is not adaptive, otherwise the rate of the first threshold
  (99.92, 99.84, 99.76, 99.68, 99.60, 99.50, 99.00, in that order) that the accuracy
  reaches, and 4e-4 when it reaches none.
\<close>

theorem get_learning_rate_reference:
  "get_learning_rate self last_accu =
     reference_learning_rate (lr_adaptive self) (learning_rate self) last_accu"
  by (simp add: get_learning_rate_def reference_learning_rate_def reference_schedule_def)

text \<open>
  C7. With the adaptive schedule the rate never increases when the accuracy
  increases, and every rate lies between 9.2e-5 and 4e-4.
\<close>

theorem get_learning_rate_antimono:
  assumes "lr_adaptive self" and "a \<le> b"
  shows "get_learning_rate self b \<le> get_learning_rate self a
         \<and> 9.2 / 10 ^ 5 \<le> get_learning_rate self a
         \<and> get_learning_rate self a \<le> 4 / 10 ^ 4"
  using assms by (simp add: get_learning_rate_def)

theorem get_learning_rate_antimono_witness:
  "lr_adaptive cfg0 \<and> (99.5::real) \<le> 99.7
   \<and> get_learning_rate cfg0 99.7 \<le> get_learning_rate cfg0 99.5
   \<and> get_learning_rate cfg0 99.7 = 1.6 / 10 ^ 4
   \<and> get_learning_rate cfg0 99.5 = 2.4 / 10 ^ 4"
proof -
  have h1: "lr_adaptive cfg0" by (simp add: cfg0_def)
  have h2: "(99.5::real) \<le> 99.7" by simp
  show ?thesis
    using get_learning_rate_antimono [OF h1 h2] h1
    by (simp add: get_learning_rate_def)
qed

section \<open>Batches\<close>

lemma py_slice_nonneg:
  "0 \<le> i \<Longrightarrow> i \<le> j \<Longrightarrow> j \<le> int (length xs) \<Longrightarrow>
   py_slice xs i j = take (nat (j - i)) (drop (nat i) xs)"
  by (simp add: py_slice_def slice_index_def Let_def min_def nat_diff_distrib)

lemma mod_wrap:
  fixes s b n :: nat
  assumes "s < n" "b \<le> n" "n \<le> s + b"
  shows "(s + b) mod n = s + b - n"
proof -
  have "s + b - n < n" using assms by simp
  then show ?thesis using assms(3) by (simp add: le_mod_geq)
qed

lemma take_drop_cyclic:
  "s + b \<le> length xs \<Longrightarrow>
   take b (drop s xs) = map (\<lambda>j. xs ! ((s + j) mod length xs)) [0..<b]"
  by (rule nth_equalityI) auto

lemma wrap_cyclic:
  assumes "s < length xs" "b \<le> length xs" "length xs \<le> s + b"
  shows "drop s xs @ take (s + b - length xs) xs
         = map (\<lambda>j. xs ! ((s + j) mod length xs)) [0..<b]"
proof (rule nth_equalityI)
  show "length (drop s xs @ take (s + b - length xs) xs)
        = length (map (\<lambda>j. xs ! ((s + j) mod length xs)) [0..<b])"
    using assms by simp
next
  fix i assume "i < length (drop s xs @ take (s + b - length xs) xs)"
  then have i: "i < b" using assms by simp
  show "(drop s xs @ take (s + b - length xs) xs) ! i
        = map (\<lambda>j. xs ! ((s + j) mod length xs)) [0..<b] ! i"
  proof (cases "i < length xs - s")
    case True
    then show ?thesis using i assms by (simp add: nth_append)
  next
    case False
    have len: "length (drop s xs) = length xs - s" by simp
    have ge: "length xs \<le> s + i" using False by simp
    have m: "(s + i) mod length xs = s + i - length xs"
      using ge assms i by (intro mod_wrap) auto
    have k: "i - (length xs - s) = s + i - length xs" using False assms by simp
    have "(drop s xs @ take (s + b - length xs) xs) ! i
          = take (s + b - length xs) xs ! (i - (length xs - s))"
      using False by (simp only: nth_append len if_False)
    also have "\<dots> = xs ! (s + i - length xs)"
      using False i assms by (simp only: k) simp
    finally show ?thesis using i by (simp add: m)
  qed
qed

text \<open>
  C2. For a data set of at least one row, a batch size between 1 and the number of rows
  and a non-negative start index, \<open>_get_next_batch\<close> returns exactly \<open>batch_size\<close>
  rows: the rows at the indices \<open>start_index mod cnt\<close>, \<open>start_index mod cnt + 1\<close>,
  and so on, wrapping from the last row to row 0, each row as it is in the data set.
\<close>

theorem get_next_batch_cyclic:
  assumes "1 \<le> length data_set"
    and "1 \<le> batch_size self" and "batch_size self \<le> int (length data_set)"
    and "0 \<le> start_index"
  shows "get_next_batch self data_set start_index =
           Inr (map (\<lambda>j. data_set ! ((nat start_index + j) mod length data_set))
                  [0..<nat (batch_size self)])"
proof -
  define n where "n = length data_set"
  define b where "b = nat (batch_size self)"
  define s where "s = nat start_index mod n"
  have n_pos: "0 < n" using assms(1) unfolding n_def by linarith
  have bs: "batch_size self = int b" using assms(2) by (simp add: b_def)
  have b_le: "b \<le> n" using assms(3) by (simp add: b_def n_def)
  have s_lt: "s < n" using n_pos by (simp add: s_def)
  have s_int: "int s = start_index mod int n"
    using assms(4) by (simp add: s_def zmod_int)
  have start: "(if start_index \<ge> int n then py_mod start_index (int n) else Inr start_index)
               = Inr (int s)"
    using assms(4) n_pos by (simp add: py_mod_def s_int)
  have idx: "\<And>j. (nat start_index + j) mod n = (s + j) mod n"
    by (simp add: s_def mod_add_left_eq)
  show ?thesis
  proof (cases "s + b < n")
    case True
    have "py_slice data_set (int s) (int s + int b) = take b (drop s data_set)"
      using True by (subst py_slice_nonneg) (auto simp: n_def)
    also have "\<dots> = map (\<lambda>j. data_set ! ((s + j) mod n)) [0..<b]"
      unfolding n_def using True by (intro take_drop_cyclic) (simp add: n_def)
    finally have sl: "py_slice data_set (int s) (int s + int b)
                      = map (\<lambda>j. data_set ! ((s + j) mod n)) [0..<b]" .
    have lt: "int s + int b < int n" using True by linarith
    show ?thesis
      unfolding get_next_batch_def Let_def n_def [symmetric] start bs
      using lt sl by (simp add: idx b_def [symmetric] bs)
  next
    case False
    have ge: "\<not> int s + int b < int n" using False by linarith
    have "(s + b) mod n = s + b - n"
      using False s_lt b_le by (intro mod_wrap) auto
    then have m: "(int s + int b) mod int n = int (s + b - n)"
      by (metis of_nat_add zmod_int)
    have "py_slice_from data_set (int s) @ py_slice_to data_set (int (s + b - n))
          = drop s data_set @ take (s + b - n) data_set"
      using s_lt b_le
      by (simp add: py_slice_from_def py_slice_to_def slice_index_def n_def)
    also have "\<dots> = map (\<lambda>j. data_set ! ((s + j) mod n)) [0..<b]"
      unfolding n_def using False s_lt b_le by (intro wrap_cyclic) (auto simp: n_def)
    finally have sl: "py_slice_from data_set (int s) @ py_slice_to data_set (int (s + b - n))
                      = map (\<lambda>j. data_set ! ((s + j) mod n)) [0..<b]" .
    have pm: "py_mod (int s + int b) (int n) = Inr (int (s + b - n))"
      using n_pos m by (simp add: py_mod_def)
    show ?thesis
      unfolding get_next_batch_def Let_def n_def [symmetric] start bs
      using ge sl pm by (simp add: idx b_def [symmetric] bs)
  qed
qed

theorem get_next_batch_cyclic_witness:
  "1 \<le> length [10, 20, 30 :: nat] \<and> 1 \<le> batch_size cfg0
   \<and> batch_size cfg0 \<le> int (length [10, 20, 30 :: nat]) \<and> (0::int) \<le> 5
   \<and> get_next_batch cfg0 [10, 20, 30 :: nat] 5 = Inr [30, 10]"
proof -
  have h1: "1 \<le> length [10, 20, 30 :: nat]" by simp
  have h2: "1 \<le> batch_size cfg0" by (simp add: cfg0_def)
  have h3: "batch_size cfg0 \<le> int (length [10, 20, 30 :: nat])" by (simp add: cfg0_def)
  have h4: "(0::int) \<le> 5" by simp
  have b: "nat (batch_size cfg0) = 2" by (simp add: cfg0_def)
  have u: "[0..<2] = [0, Suc 0]" by (simp add: upt_rec)
  show ?thesis
    using get_next_batch_cyclic [OF h1 h2 h3 h4] h2 h3
    by (simp add: b u)
qed

section \<open>The three architectures\<close>

text \<open>
  C8. In the STCNN graph the first convolution reads the output of the one spatial
  transformer, which is applied to the reshaped input images and whose transform is
  computed with a bias initialised to the identity transform; its convolutions are 3x3.
  The DCNN graph has no transformer, and in each of its two convolutional blocks a 3x3
  kernel is followed by a 1x3, a 3x1 and a 3x3 kernel. The basic graph has no
  transformer and only 3x3 kernels.
\<close>

theorem builders_architecture:
  "(\<exists>loc W. hd (conv_inputs (build_inference_graph_stcnn self images_placeholder keep_prob_placeholder))
       = Transformer (Reshape images_placeholder [-1, img_height self, img_width self, 1])
           (Tanh (Add (MatMul loc W)
                      (Variable (Values [1, 0, 0, 0, 1, 0]) (Some ''b_fc_loc2'')) None))
           (img_height self, img_width self))
   \<and> length (transformers (build_inference_graph_stcnn self images_placeholder keep_prob_placeholder)) = 1
   \<and> conv_layers (build_inference_graph_stcnn self images_placeholder keep_prob_placeholder)
       = [Conv [3, 3, 1, 32], Conv [3, 3, 32, 32], Pool,
          Conv [3, 3, 32, 64], Conv [3, 3, 64, 64], Pool]
   \<and> transformers (build_inference_graph_dcnn self images_placeholder keep_prob_placeholder) = []
   \<and> conv_layers (build_inference_graph_dcnn self images_placeholder keep_prob_placeholder)
       = [Conv [3, 3, 1, 32], Conv [1, 3, 32, 32], Conv [3, 1, 32, 32], Conv [3, 3, 32, 32], Pool,
          Conv [3, 3, 32, 64], Conv [1, 3, 64, 64], Conv [3, 1, 64, 64], Conv [3, 3, 64, 64], Pool]
   \<and> transformers (build_inference_graph_basic self images_placeholder keep_prob_placeholder) = []
   \<and> conv_layers (build_inference_graph_basic self images_placeholder keep_prob_placeholder)
       = [Conv [3, 3, 1, 32], Conv [3, 3, 32, 32], Pool,
          Conv [3, 3, 32, 64], Conv [3, 3, 64, 64], Pool]"
proof -
  have s1: "\<exists>loc W. hd (conv_inputs (build_inference_graph_stcnn self images_placeholder keep_prob_placeholder))
       = Transformer (Reshape images_placeholder [-1, img_height self, img_width self, 1])
           (Tanh (Add (MatMul loc W)
                      (Variable (Values [1, 0, 0, 0, 1, 0]) (Some ''b_fc_loc2'')) None))
           (img_height self, img_width self)"
    by (simp add: build_inference_graph_stcnn_def Let_def conv2d_def max_pool_2x2_def
        images_placeholder_def keep_prob_placeholder_def)
  have s2: "length (transformers (build_inference_graph_stcnn self images_placeholder keep_prob_placeholder)) = 1"
    by (simp add: build_inference_graph_stcnn_def Let_def conv2d_def max_pool_2x2_def
        images_placeholder_def keep_prob_placeholder_def)
  have s3: "conv_layers (build_inference_graph_stcnn self images_placeholder keep_prob_placeholder)
       = [Conv [3, 3, 1, 32], Conv [3, 3, 32, 32], Pool,
          Conv [3, 3, 32, 64], Conv [3, 3, 64, 64], Pool]"
    by (simp add: build_inference_graph_stcnn_def Let_def conv2d_def max_pool_2x2_def
        images_placeholder_def keep_prob_placeholder_def)
  have d1: "transformers (build_inference_graph_dcnn self images_placeholder keep_prob_placeholder) = []"
    by (simp add: build_inference_graph_dcnn_def Let_def conv2d_def max_pool_2x2_def
        images_placeholder_def keep_prob_placeholder_def)
  have d2: "conv_layers (build_inference_graph_dcnn self images_placeholder keep_prob_placeholder)
       = [Conv [3, 3, 1, 32], Conv [1, 3, 32, 32], Conv [3, 1, 32, 32], Conv [3, 3, 32, 32], Pool,
          Conv [3, 3, 32, 64], Conv [1, 3, 64, 64], Conv [3, 1, 64, 64], Conv [3, 3, 64, 64], Pool]"
    by (simp add: build_inference_graph_dcnn_def Let_def conv2d_def max_pool_2x2_def
        images_placeholder_def keep_prob_placeholder_def)
  have b1: "transformers (build_inference_graph_basic self images_placeholder keep_prob_placeholder) = []"
    by (simp add: build_inference_graph_basic_def Let_def conv2d_def max_pool_2x2_def
        images_placeholder_def keep_prob_placeholder_def)
  have b2: "conv_layers (build_inference_graph_basic self images_placeholder keep_prob_placeholder)
       = [Conv [3, 3, 1, 32], Conv [3, 3, 32, 32], Pool,
          Conv [3, 3, 32, 64], Conv [3, 3, 64, 64], Pool]"
    by (simp add: build_inference_graph_basic_def Let_def conv2d_def max_pool_2x2_def
        images_placeholder_def keep_prob_placeholder_def)
  show ?thesis using s1 s2 s3 d1 d2 b1 b2 by blast
qed

section \<open>Prediction reads what training registered\<close>

lemma def_graph_collections:
  "get_collection (def_graph self) (model_scope self @ ''logits'') = [inference_graph self]"
  "get_collection (def_graph self) (model_scope self @ ''images'') = [images_placeholder]"
  "get_collection (def_graph self) (model_scope self @ ''keep_prob'') = [keep_prob_placeholder]"
  by (simp_all add: def_graph_def Let_def build_training_graph_def add_to_collection_def
      get_collection_def)

text \<open>
  C6. When the checkpoint files hold the graph built by \<open>train\<close> and a session, the
  collections keyed by the model scope followed by \<open>logits\<close>, \<open>images\<close> and
  \<open>keep_prob\<close> hold exactly the tensors that \<open>train\<close> registered, and \<open>predict\<close>
  returns what the session computes for \<open>top_k\<close> with the given \<open>k\<close> of the softmax of
  the logits, fed with the images and with a keep probability of 1.0.
\<close>

theorem predict_registered_tensors:
  assumes "meta_files fs (os_path_join result_dir (result_file @ ''.meta'')) = Some (def_graph self)"
    and "checkpoint_files fs (os_path_join result_dir result_file) = Some sess"
  shows "get_collection (def_graph self) (model_scope self @ ''logits'') = [inference_graph self]
       \<and> get_collection (def_graph self) (model_scope self @ ''images'') = [images_placeholder]
       \<and> get_collection (def_graph self) (model_scope self @ ''keep_prob'') = [keep_prob_placeholder]
       \<and> predict tf fs (model_scope self) result_dir result_file img_features k =
           Inr (run_eval tf sess (TopK (Softmax (inference_graph self)) k)
                  [(images_placeholder, Matrix img_features),
                   (keep_prob_placeholder, Scalar 1.0)])"
  using assms by (simp add: predict_def def_graph_collections first_def)

theorem predict_registered_tensors_witness:
  "meta_files fs0 (os_path_join ''dir'' (''file'' @ ''.meta'')) = Some (def_graph cfg0)
   \<and> checkpoint_files fs0 (os_path_join ''dir'' ''file'') = Some 4
   \<and> predict tf0 fs0 (model_scope cfg0) ''dir'' ''file'' [[1, 2]] 1 =
       Inr (TopK (Softmax (inference_graph cfg0)) 1,
            [(images_placeholder, Matrix [[1, 2]]), (keep_prob_placeholder, Scalar 1.0)])"
proof -
  have h1: "meta_files fs0 (os_path_join ''dir'' (''file'' @ ''.meta'')) = Some (def_graph cfg0)"
    by (simp add: fs0_def os_path_join_def)
  have h2: "checkpoint_files fs0 (os_path_join ''dir'' ''file'') = Some 4"
    by (simp add: fs0_def os_path_join_def)
  show ?thesis
    using predict_registered_tensors [OF h1 h2, of tf0 "[[1, 2]]" 1] h1 h2
    by (simp add: tf0_def)
qed

section \<open>The events of the training loop\<close>

lemma proj_Nil [simp]:
  "all_runs [] = []" "feeds [] = []" "means [] = []" "saves [] = []"
  by (simp_all add: all_runs_def feeds_def means_def saves_def)

lemma proj_append [simp]:
  "all_runs (a @ b) = all_runs a @ all_runs b"
  "feeds (a @ b) = feeds a @ feeds b"
  "means (a @ b) = means a @ means b"
  "saves (a @ b) = saves a @ saves b"
  by (simp_all add: all_runs_def feeds_def means_def saves_def)

lemma proj_Run [simp]:
  "all_runs (Run e s fd # evs) = (e, s) # all_runs evs"
  "feeds (Run e s fd # evs) = fd # feeds evs"
  "means (Run e s fd # evs) = means evs"
  "saves (Run e s fd # evs) = saves evs"
  by (simp_all add: all_runs_def feeds_def means_def saves_def)

lemma proj_Saved [simp]:
  "all_runs (Saved e sess f g # evs) = all_runs evs"
  "feeds (Saved e sess f g # evs) = feeds evs"
  "means (Saved e sess f g # evs) = means evs"
  "saves (Saved e sess f g # evs) = (e, g) # saves evs"
  by (simp_all add: all_runs_def feeds_def means_def saves_def)

lemma proj_Printed [simp]:
  "all_runs (Printed e lr lo mi m ma # evs) = all_runs evs"
  "feeds (Printed e lr lo mi m ma # evs) = feeds evs"
  "means (Printed e lr lo mi m ma # evs) = (e, m) # means evs"
  "saves (Printed e lr lo mi m ma # evs) = saves evs"
  by (simp_all add: all_runs_def feeds_def means_def saves_def)

lemma proj_setup [simp]:
  "all_runs (GraphBuilt g # evs) = all_runs evs"
  "feeds (GraphBuilt g # evs) = feeds evs"
  "means (GraphBuilt g # evs) = means evs"
  "saves (GraphBuilt g # evs) = saves evs"
  "all_runs (SessionCreated sess # evs) = all_runs evs"
  "feeds (SessionCreated sess # evs) = feeds evs"
  "means (SessionCreated sess # evs) = means evs"
  "saves (SessionCreated sess # evs) = saves evs"
  by (simp_all add: all_runs_def feeds_def means_def saves_def)

lemma get_next_batch_nonempty:
  "data_set \<noteq> [] \<Longrightarrow> \<exists>b. get_next_batch self data_set i = Inr b"
  by (simp add: get_next_batch_def py_mod_def Let_def)

lemma get_next_batch_error:
  "get_next_batch self data_set i = Inl e \<Longrightarrow> e = ZeroDivisionError"
  by (auto simp: get_next_batch_def py_mod_def Let_def split: if_splits)

lemma py_slice_subset: "set (py_slice xs i j) \<subseteq> set xs"
  unfolding py_slice_def Let_def
  by (meson set_take_subset set_drop_subset subset_trans)

lemma get_next_batch_form:
  assumes "get_next_batch self data_set i = Inr b"
  shows "(\<exists>s e. b = py_slice data_set s e)
       \<or> (\<exists>s e. b = py_slice_from data_set s @ py_slice_to data_set e)"
proof (cases "i \<ge> int (length data_set)")
  case True
  then show ?thesis
    using assms
    by (simp add: get_next_batch_def py_mod_def Let_def split: if_splits) blast+
next
  case False
  then show ?thesis
    using assms
    by (simp add: get_next_batch_def py_mod_def Let_def split: if_splits) blast+
qed

lemma get_next_batch_subset:
  assumes "get_next_batch self data_set i = Inr b"
  shows "set b \<subseteq> set data_set"
proof -
  have f: "set (py_slice_from data_set k) \<subseteq> set data_set" for k
    by (simp add: py_slice_from_def set_drop_subset)
  have t: "set (py_slice_to data_set k) \<subseteq> set data_set" for k
    by (simp add: py_slice_to_def set_take_subset)
  from get_next_batch_form [OF assms] show ?thesis
  proof
    assume "\<exists>s e. b = py_slice data_set s e"
    then obtain s e where "b = py_slice data_set s e" by blast
    then show ?thesis by (simp add: py_slice_subset)
  next
    assume "\<exists>s e. b = py_slice_from data_set s @ py_slice_to data_set e"
    then obtain s e where "b = py_slice_from data_set s @ py_slice_to data_set e" by blast
    then show ?thesis using f [of s] t [of e] by simp
  qed
qed

lemma step_loop_general:
  assumes "step_loop tf self ts cols lr epoch steps sess ll al = (err, sess', ll', al', evs)"
  shows "means evs = [] \<and> saves evs = []
       \<and> list_all (feed_from ts cols) (feeds evs)
       \<and> (err = None \<or> err = Some ZeroDivisionError)
       \<and> length ll' - length ll = length al' - length al
       \<and> length ll \<le> length ll' \<and> length al \<le> length al'"
  using assms
proof (induction steps arbitrary: sess ll al err sess' ll' al' evs)
  case Nil
  then show ?case by simp
next
  case (Cons step steps)
  show ?case
  proof (cases "get_next_batch self ts (step * batch_size self)")
    case (Inl e)
    then show ?thesis using Cons.prems get_next_batch_error [OF Inl] by simp
  next
    case (Inr batch)
    define fd where "fd = \<lparr>images_feed = map (take cols) batch,
                     labels_feed = concat (map (drop cols) batch),
                     lr_feed = lr, keep_prob_feed = keep_prob self\<rparr>"
    obtain s1 lo ac where r: "run_train tf sess fd = (s1, lo, ac)"
      by (cases "run_train tf sess fd") auto
    obtain err2 s2 ll2 al2 evs2 where
      rec: "step_loop tf self ts cols lr epoch steps s1 (ll @ [lo]) (al @ [ac])
             = (err2, s2, ll2, al2, evs2)"
      by (cases "step_loop tf self ts cols lr epoch steps s1 (ll @ [lo]) (al @ [ac])") auto
    have res: "err = err2" "ll' = ll2" "al' = al2" "evs = Run epoch step fd # evs2"
      using Cons.prems Inr r rec by (simp_all add: fd_def [symmetric])
    have ff: "feed_from ts cols fd"
      unfolding feed_from_def using get_next_batch_subset [OF Inr]
      by (intro exI [of _ batch]) (simp add: fd_def)
    show ?thesis using Cons.IH [OF rec] res ff by auto
  qed
qed

lemma step_loop_runs:
  assumes "step_loop tf self ts cols lr epoch steps sess ll al = (err, sess', ll', al', evs)"
    and "ts \<noteq> [] \<or> steps = []"
  shows "err = None \<and> all_runs evs = map (Pair epoch) steps
       \<and> length al' = length al + length steps"
  using assms
proof (induction steps arbitrary: sess ll al err sess' ll' al' evs)
  case Nil
  then show ?case by simp
next
  case (Cons step steps)
  then have ne: "ts \<noteq> []" by simp
  obtain batch where b: "get_next_batch self ts (step * batch_size self) = Inr batch"
    using get_next_batch_nonempty [OF ne] by blast
  define fd where "fd = \<lparr>images_feed = map (take cols) batch,
                   labels_feed = concat (map (drop cols) batch),
                   lr_feed = lr, keep_prob_feed = keep_prob self\<rparr>"
  obtain s1 lo ac where r: "run_train tf sess fd = (s1, lo, ac)"
    by (cases "run_train tf sess fd") auto
  obtain err2 s2 ll2 al2 evs2 where
    rec: "step_loop tf self ts cols lr epoch steps s1 (ll @ [lo]) (al @ [ac])
           = (err2, s2, ll2, al2, evs2)"
    by (cases "step_loop tf self ts cols lr epoch steps s1 (ll @ [lo]) (al @ [ac])") auto
  have res: "err = err2" "al' = al2" "evs = Run epoch step fd # evs2"
    using Cons.prems(1) b r rec by (simp_all add: fd_def [symmetric])
  show ?case using Cons.IH [OF rec] ne res by simp
qed


lemma epoch_body_general:
  fixes tf :: "('s, 'r) tf"
  assumes "epoch_body tf self ts cols sf E epoch sess prev = (out, evs)"
  shows "list_all (feed_from ts cols) (feeds evs)
       \<and> (case out of
            Raise e \<Rightarrow> e = ZeroDivisionError \<and> means evs = [] \<and> saves evs = []
          | Break \<Rightarrow> (\<exists>m. m \<ge> 99.99 \<and> means evs = [(epoch, m)]
                         \<and> saves evs = save_list self prev epoch m)
          | Next s m \<Rightarrow> m < 99.99 \<and> means evs = [(epoch, m)]
                         \<and> saves evs = save_list self prev epoch m)"
proof -
  obtain err s1 ll al evs1 where
    sl: "step_loop tf self ts cols (get_learning_rate self prev) epoch (py_range 0 E) sess [] []
           = (err, s1, ll, al, evs1)"
    by (cases "step_loop tf self ts cols (get_learning_rate self prev) epoch (py_range 0 E) sess [] []")
       auto
  note g = step_loop_general [OF sl]
  show ?thesis
  proof (cases err)
    case (Some e)
    then show ?thesis using assms sl g by (auto simp: epoch_body_def Let_def)
  next
    case None
    show ?thesis
    proof (cases "al = []")
      case True
      then show ?thesis using assms sl g None by (auto simp: epoch_body_def Let_def)
    next
      case False
      define m where "m = sum_list al * 100 / real (length al)"
      define sv where "sv =
        (if m \<ge> 99.68 \<and> m > prev then [Saved epoch s1 sf (Some epoch)]
         else if epoch = num_epoches self - 1 then [Saved epoch s1 sf None]
         else [])"
      define line :: "'s event" where "line = Printed epoch (get_learning_rate self prev)
          (sum_list ll / real (length ll)) (py_min al * 100) m (py_max al * 100)"
      have body: "epoch_body tf self ts cols sf E epoch sess prev =
          (if m \<ge> 99.99 then (Break, evs1 @ sv @ [line])
           else (Next s1 m, evs1 @ sv @ [line]))"
        using sl None False
        by (simp add: epoch_body_def Let_def m_def sv_def line_def)
      have svs: "saves sv = save_list self prev epoch m" "means sv = []" "feeds sv = []"
        by (simp_all add: sv_def save_list_def)
      have ln: "saves [line] = []" "means [line] = [(epoch, m)]" "feeds [line] = []"
        by (simp_all add: line_def)
      show ?thesis
      proof (cases "m \<ge> 99.99")
        case True
        then have "out = Break" "evs = evs1 @ sv @ [line]" using assms body by simp_all
        then show ?thesis using g svs ln True by auto
      next
        case False
        then have "out = Next s1 m" "evs = evs1 @ sv @ [line]" using assms body by simp_all
        then show ?thesis using g svs ln False by auto
      qed
    qed
  qed
qed

lemma py_range_Nil: "py_range 0 E = [] \<longleftrightarrow> E \<le> 0"
  by (auto simp: py_range_def)

lemma epoch_body_runs:
  assumes "epoch_body tf self ts cols sf E epoch sess prev = (out, evs)"
    and "ts \<noteq> [] \<or> E \<le> 0"
  shows "all_runs evs = map (Pair epoch) (py_range 0 E)
       \<and> ((\<exists>e. out = Raise e) \<longleftrightarrow> E \<le> 0)"
proof -
  obtain err s1 ll al evs1 where
    sl: "step_loop tf self ts cols (get_learning_rate self prev) epoch (py_range 0 E) sess [] []
           = (err, s1, ll, al, evs1)"
    by (cases "step_loop tf self ts cols (get_learning_rate self prev) epoch (py_range 0 E) sess [] []")
       auto
  have a: "ts \<noteq> [] \<or> py_range 0 E = []" using assms(2) by (simp add: py_range_Nil)
  note r = step_loop_runs [OF sl a]
  have "length al = length (py_range 0 E)" using r by simp
  then have "al = [] \<longleftrightarrow> py_range 0 E = []" by (metis length_0_conv)
  then have al: "al = [] \<longleftrightarrow> E \<le> 0" by (simp add: py_range_Nil)
  show ?thesis
    using assms(1) sl r al
    by (auto simp: epoch_body_def Let_def split: if_splits)
qed

lemma epoch_loop_Cons_cases:
  assumes "epoch_loop tf self ts cols sf E (epoch # epochs) sess prev = (err, evs)"
  obtains (raise) e where "epoch_body tf self ts cols sf E epoch sess prev = (Raise e, evs)"
      and "err = Some e"
  | (break) "epoch_body tf self ts cols sf E epoch sess prev = (Break, evs)" and "err = None"
  | (continue) s m evs1 rest where
        "epoch_body tf self ts cols sf E epoch sess prev = (Next s m, evs1)"
      and "epoch_loop tf self ts cols sf E epochs s m = (err, rest)"
      and "evs = evs1 @ rest"
proof -
  obtain out evs1 where b: "epoch_body tf self ts cols sf E epoch sess prev = (out, evs1)"
    by (cases "epoch_body tf self ts cols sf E epoch sess prev") auto
  show ?thesis
  proof (cases out)
    case (Raise e)
    then show ?thesis using assms b raise by simp
  next
    case Break
    then show ?thesis using assms b break by simp
  next
    case (Next s m)
    obtain err2 rest where r: "epoch_loop tf self ts cols sf E epochs s m = (err2, rest)"
      by (cases "epoch_loop tf self ts cols sf E epochs s m") auto
    show ?thesis using assms b Next r continue [of s m evs1 rest] by simp
  qed
qed

lemma epoch_loop_general:
  assumes "epoch_loop tf self ts cols sf E epochs sess prev = (err, evs)"
  shows "saves evs = expected_saves self prev (means evs)
       \<and> map fst (means evs) = take (length (means evs)) epochs
       \<and> list_all (\<lambda>(e, m). m < 99.99) (butlast (means evs))
       \<and> (err = None \<or> err = Some ZeroDivisionError)
       \<and> list_all (feed_from ts cols) (feeds evs)"
  using assms
proof (induction epochs arbitrary: sess prev err evs)
  case Nil
  then show ?case by simp
next
  case (Cons epoch epochs)
  from Cons.prems show ?case
  proof (cases rule: epoch_loop_Cons_cases)
    case (raise e)
    then show ?thesis using epoch_body_general [OF raise(1)] by simp
  next
    case break
    then show ?thesis using epoch_body_general [OF break(1)] by auto
  next
    case (continue s m evs1 rest)
    note b = epoch_body_general [OF continue(1)]
    note ih = Cons.IH [OF continue(2)]
    have m: "means evs = (epoch, m) # means rest" using b continue(3) by simp
    have "list_all (\<lambda>(e, m). m < 99.99) (butlast ((epoch, m) # means rest))"
      using b ih by (cases "means rest") auto
    then show ?thesis using b ih continue(3) m by simp
  qed
qed

lemma epoch_loop_runs:
  assumes "epoch_loop tf self ts cols sf E epochs sess prev = (err, evs)"
    and "ts \<noteq> [] \<or> E \<le> 0"
  shows "all_runs evs = concat (map (\<lambda>e. map (Pair e) (py_range 0 E)) (map fst (means evs)))"
  using assms(1)
proof (induction epochs arbitrary: sess prev err evs)
  case Nil
  then show ?case by simp
next
  case (Cons epoch epochs)
  from Cons.prems show ?case
  proof (cases rule: epoch_loop_Cons_cases)
    case (raise e)
    then show ?thesis
      using epoch_body_general [OF raise(1)] epoch_body_runs [OF raise(1) assms(2)]
      by (simp add: py_range_Nil [symmetric])
  next
    case break
    then show ?thesis
      using epoch_body_general [OF break(1)] epoch_body_runs [OF break(1) assms(2)]
      by auto
  next
    case (continue s m evs1 rest)
    then show ?thesis
      using epoch_body_general [OF continue(1)] epoch_body_runs [OF continue(1) assms(2)]
        Cons.IH [OF continue(2)]
      by simp
  qed
qed

lemma epoch_loop_complete:
  assumes "epoch_loop tf self ts cols sf E epochs sess prev = (err, evs)"
    and "ts \<noteq> []" and "1 \<le> E"
  shows "err = None
       \<and> (list_all (\<lambda>(e, m). m < 99.99) (means evs) \<longrightarrow> map fst (means evs) = epochs)"
  using assms(1)
proof (induction epochs arbitrary: sess prev err evs)
  case Nil
  then show ?case by simp
next
  case (Cons epoch epochs)
  have a: "ts \<noteq> [] \<or> E \<le> 0" using assms(2) by simp
  from Cons.prems show ?case
  proof (cases rule: epoch_loop_Cons_cases)
    case (raise e)
    then show ?thesis using epoch_body_runs [OF raise(1) a] assms(3) by simp
  next
    case break
    then show ?thesis using epoch_body_general [OF break(1)] by auto
  next
    case (continue s m evs1 rest)
    then show ?thesis
      using epoch_body_general [OF continue(1)] Cons.IH [OF continue(2)] by simp
  qed
qed

section \<open>The training run\<close>

lemma permutation_mset: "mset (permutation rs xs) = mset xs"
proof (induction rs xs rule: permutation.induct)
  case (1 uu)
  then show ?case by simp
next
  case (2 v va)
  then show ?case by simp
next
  case (3 r rs v va)
  define xs where "xs = v # va"
  define j where "j = r mod length xs"
  have j: "j < length xs" by (simp add: j_def xs_def)
  have split: "xs = take j xs @ xs ! j # drop (Suc j) xs"
    using j by (rule id_take_nth_drop)
  have ih: "mset (permutation rs (take j xs @ drop (Suc j) xs))
            = mset (take j xs @ drop (Suc j) xs)"
    using "3.IH" [of j] by (simp add: j_def xs_def)
  have "mset (permutation (r # rs) xs)
        = add_mset (xs ! j) (mset (take j xs) + mset (drop (Suc j) xs))"
    using ih by (simp add: xs_def j_def Let_def)
  also have "\<dots> = mset (take j xs @ xs ! j # drop (Suc j) xs)" by simp
  also have "\<dots> = mset xs" using split by simp
  finally show ?case by (simp add: xs_def)
qed

lemma permutation_length: "length (permutation rs xs) = length xs"
  using permutation_mset [of rs xs] by (metis size_mset)

lemma permutation_set: "set (permutation rs xs) = set xs"
  using permutation_mset [of rs xs] by (metis set_mset_mset)

lemma train_set_of_Inr:
  assumes "train_set_of draws X Y = Inr ts"
  shows "\<exists>y. Y = Array2 y \<and> length (data X) = length (data y) \<and> length ts = length (data X)
          \<and> mset ts = mset (map2 (@) (data X) (data y))"
  using assms
  by (cases Y)
     (auto simp: train_set_of_def np_append_axis1_def permutation_mset permutation_length
      split: if_splits)

lemma train_set_of_Inl:
  assumes "train_set_of draws X Y = Inl e"
  shows "e = ValueError \<and> \<not> (\<exists>y. Y = Array2 y \<and> length (data X) = length (data y))"
  using assms
  by (cases Y) (auto simp: train_set_of_def np_append_axis1_def split: if_splits)

lemma train_not_two_dimensional:
  "train tf draws self (ArrayN d flat) Y train_dir result_file = (Some ValueError, [])"
  by (simp add: train_def)

lemma train_cases:
  fixes tf :: "('s, 'r) tf"
  obtains
    (bad_cols) "int (ncols X) \<noteq> img_height self * img_width self"
      and "train tf draws self (Array2 X) Y train_dir result_file = (Some ValueError, [])"
  | (bad_labels) "int (ncols X) = img_height self * img_width self"
      and "\<not> (\<exists>y. Y = Array2 y \<and> length (data X) = length (data y))"
      and "train tf draws self (Array2 X) Y train_dir result_file = (Some ValueError, [])"
  | (zero_batch) "int (ncols X) = img_height self * img_width self"
      and "\<exists>y. Y = Array2 y \<and> length (data X) = length (data y)"
      and "batch_size self = 0"
      and "train tf draws self (Array2 X) Y train_dir result_file =
             (Some ZeroDivisionError,
              [GraphBuilt (def_graph self), SessionCreated (init_session tf (def_graph self))])"
  | (loop) ts err evs where "int (ncols X) = img_height self * img_width self"
      and "train_set_of draws X Y = Inr ts"
      and "batch_size self \<noteq> 0"
      and "epoch_loop tf self ts (ncols X) (os_path_join train_dir result_file)
             (steps_per_epoch self X) (py_range 1 (num_epoches self + 1))
             (init_session tf (def_graph self)) 0 = (err, evs)"
      and "train tf draws self (Array2 X) Y train_dir result_file =
             (err, GraphBuilt (def_graph self)
                   # SessionCreated (init_session tf (def_graph self)) # evs)"
proof (cases "int (ncols X) \<noteq> img_height self * img_width self")
  case True
  then show ?thesis using bad_cols by (simp add: train_def shape_def)
next
  case cols: False
  show ?thesis
  proof (cases "train_set_of draws X Y")
    case (Inl e)
    then show ?thesis
      using cols train_set_of_Inl [OF Inl] bad_labels by (simp add: train_def shape_def)
  next
    case (Inr ts)
    note t = train_set_of_Inr [OF Inr]
    have lt: "length ts = length (data X)" using t by blast
    have ex: "\<exists>y. Y = Array2 y \<and> length (data X) = length (data y)" using t by blast
    show ?thesis
    proof (cases "batch_size self = 0")
      case True
      then show ?thesis
        using cols Inr ex zero_batch
        by (simp add: train_def shape_def py_truediv_def Let_def)
    next
      case False
      obtain err evs where
        l: "epoch_loop tf self ts (ncols X) (os_path_join train_dir result_file)
             (steps_per_epoch self X) (py_range 1 (num_epoches self + 1))
             (init_session tf (def_graph self)) 0 = (err, evs)"
        by (cases "epoch_loop tf self ts (ncols X) (os_path_join train_dir result_file)
             (steps_per_epoch self X) (py_range 1 (num_epoches self + 1))
             (init_session tf (def_graph self)) 0") auto
      have "train tf draws self (Array2 X) Y train_dir result_file =
             (err, GraphBuilt (def_graph self)
                   # SessionCreated (init_session tf (def_graph self)) # evs)"
        using cols Inr lt False l
        by (simp add: train_def shape_def py_truediv_def Let_def steps_per_epoch_def)
      then show ?thesis using loop [OF _ Inr False l] cols by simp
    qed
  qed
qed

lemma epoch_loop_all_epochs:
  assumes "epoch_loop tf self ts cols sf E epochs sess prev = (None, evs)"
    and "list_all (\<lambda>(e, m). m < 99.99) (means evs)"
  shows "map fst (means evs) = epochs"
  using assms
proof (induction epochs arbitrary: sess prev evs)
  case Nil
  then show ?case by simp
next
  case (Cons epoch epochs)
  from Cons.prems(1) show ?case
  proof (cases rule: epoch_loop_Cons_cases)
    case (raise e)
    then show ?thesis by simp
  next
    case break
    then show ?thesis using epoch_body_general [OF break(1)] Cons.prems(2) by auto
  next
    case (continue s m evs1 rest)
    note b = epoch_body_general [OF continue(1)]
    have "list_all (\<lambda>(e, m). m < 99.99) (means rest)"
      using Cons.prems(2) continue(3) by simp
    then show ?thesis using b Cons.IH [OF continue(2)] continue(3) by simp
  qed
qed

lemma length_concat_const:
  "length (concat (map (\<lambda>e. map (f e) R) es)) = length es * length R"
  by (induction es) simp_all

lemma length_py_range: "length (py_range a b) = nat (b - a)"
  by (simp add: py_range_def)

lemma steps_empty_train_set:
  assumes "length ts = length (data X)" and "ts = []"
  shows "steps_per_epoch self X \<le> 0"
  using assms by (simp add: steps_per_epoch_def)

text \<open>
  C4. The training loop completes at most \<open>num_epoches\<close> epochs, in the order 1, 2, and
  so on; the optimisation steps are, for each completed epoch in turn, exactly the steps
  0 up to \<open>ceil(rows / batch_size) - 1\<close>; every completed epoch but the last has a mean
  accuracy below 99.99 percent, so the loop stops at the first epoch that reaches it; and
  the number of steps of the whole run is at most \<open>num_epoches\<close> times
  \<open>ceil(rows / batch_size)\<close>. The run itself is a total function of its inputs.
\<close>

theorem train_step_bound:
  fixes tf :: "('s, 'r) tf" and draws self X Y train_dir result_file
  defines "evs \<equiv> snd (train tf draws self (Array2 X) Y train_dir result_file)"
    and "E \<equiv> steps_per_epoch self X"
  shows "map fst (means evs) = take (length (means evs)) (py_range 1 (num_epoches self + 1))
       \<and> length (means evs) \<le> nat (num_epoches self)
       \<and> all_runs evs = concat (map (\<lambda>e. map (Pair e) (py_range 0 E)) (map fst (means evs)))
       \<and> list_all (\<lambda>(e, m). m < 99.99) (butlast (means evs))
       \<and> length (all_runs evs) \<le> nat (num_epoches self) * nat E"
proof (cases rule: train_cases [of X self tf draws Y train_dir result_file])
  case bad_cols
  then show ?thesis by (simp add: evs_def)
next
  case bad_labels
  then show ?thesis by (simp add: evs_def)
next
  case zero_batch
  then show ?thesis by (simp add: evs_def)
next
  case (loop ts err evs')
  have t: "length ts = length (data X)" using train_set_of_Inr [OF loop(2)] by blast
  have a: "ts \<noteq> [] \<or> E \<le> 0"
    using steps_empty_train_set [of ts X self] t by (auto simp: E_def)
  note g = epoch_loop_general [OF loop(4)]
  note r = epoch_loop_runs [OF loop(4) a [unfolded E_def]]
  have p: "all_runs evs = all_runs evs'" "means evs = means evs'"
    using loop(5) by (simp_all add: evs_def)
  have pre: "map fst (means evs') = take (length (means evs')) (py_range 1 (num_epoches self + 1))"
    using g by simp
  have "length (means evs') = length (take (length (means evs')) (py_range 1 (num_epoches self + 1)))"
    using pre by (metis length_map)
  then have len: "length (means evs') \<le> nat (num_epoches self)"
    by (simp add: length_py_range)
  have "length (all_runs evs')
        = length (map fst (means evs')) * length (py_range 0 (steps_per_epoch self X))"
    unfolding r by (rule length_concat_const)
  then have "length (all_runs evs') = length (means evs') * nat E"
    by (simp add: length_py_range E_def)
  then have bound: "length (all_runs evs') \<le> nat (num_epoches self) * nat E"
    using len by simp
  show ?thesis using g r len bound by (simp add: p E_def)
qed


theorem train_step_bound_witness:
  "all_runs (snd (train tf0 [2, 0] cfg0 (Array2 X0) (Array2 Y0) ''dir'' ''file''))
     = [(1, 0), (1, 1), (2, 0), (2, 1), (3, 0), (3, 1)]
   \<and> steps_per_epoch cfg0 X0 = 2
   \<and> length (all_runs (snd (train tf0 [2, 0] cfg0 (Array2 X0) (Array2 Y0) ''dir'' ''file'')))
       \<le> nat (num_epoches cfg0) * nat (steps_per_epoch cfg0 X0)"
proof -
  have a: "all_runs (snd (train tf0 [2, 0] cfg0 (Array2 X0) (Array2 Y0) ''dir'' ''file''))
     = [(1, 0), (1, 1), (2, 0), (2, 1), (3, 0), (3, 1)]"
    by code_simp
  have b: "steps_per_epoch cfg0 X0 = 2"
    by (simp add: steps_per_epoch_def cfg0_def X0_def)
  note t = train_step_bound [of tf0 "[2, 0]" cfg0 X0 "Array2 Y0" "''dir''" "''file''"]
  have c: "length (all_runs (snd (train tf0 [2, 0] cfg0 (Array2 X0) (Array2 Y0) ''dir'' ''file'')))
       \<le> nat (num_epoches cfg0) * nat (steps_per_epoch cfg0 X0)"
    by (rule conjunct2 [OF conjunct2 [OF conjunct2 [OF conjunct2 [OF t]]]])
  show ?thesis using a b c by (intro conjI)
qed

section \<open>The constructor and the choice of the graph\<close>

text \<open>
  C3. The constructor fails with an assertion error exactly when the model is none of
  \<open>BASIC\<close>, \<open>DCNN\<close> and \<open>STCNN\<close>; and for an object it returns, once the inputs pass
  the size check and the appending, \<open>train\<close> builds a graph whose logits are those of
  the spatial-transformer builder when the model is \<open>STCNN\<close>, of the
  factorized-convolution builder when it is \<open>DCNN\<close>, and of the basic builder otherwise,
  which is then the model \<open>BASIC\<close>.
\<close>

theorem init_model_dispatch:
  fixes tf :: "('s, 'r) tf"
  shows "(init m scope h w classes kp lr adaptive bs epochs = Inl AssertionError
            \<longleftrightarrow> m \<noteq> ''BASIC'' \<and> m \<noteq> ''DCNN'' \<and> m \<noteq> ''STCNN'')
       \<and> (\<forall>self. init m scope h w classes kp lr adaptive bs epochs = Inr self
                 \<and> int (ncols X) = h * w \<and> length (data X) = length (data Y) \<longrightarrow>
            model self = m \<and>
            (\<exists>g rest.
               snd (train tf draws self (Array2 X) (Array2 Y) train_dir result_file)
                 = GraphBuilt g # rest
               \<and> (m = ''STCNN'' \<and> get_collection g (scope @ ''logits'') =
                     [build_inference_graph_stcnn self images_placeholder keep_prob_placeholder]
                  \<or> m = ''DCNN'' \<and> get_collection g (scope @ ''logits'') =
                     [build_inference_graph_dcnn self images_placeholder keep_prob_placeholder]
                  \<or> m = ''BASIC'' \<and> get_collection g (scope @ ''logits'') =
                     [build_inference_graph_basic self images_placeholder
                        keep_prob_placeholder])))"
proof (intro conjI allI impI)
  show "init m scope h w classes kp lr adaptive bs epochs = Inl AssertionError
          \<longleftrightarrow> m \<noteq> ''BASIC'' \<and> m \<noteq> ''DCNN'' \<and> m \<noteq> ''STCNN''"
    by (auto simp: init_def)
next
  fix self
  assume a: "init m scope h w classes kp lr adaptive bs epochs = Inr self
             \<and> int (ncols X) = h * w \<and> length (data X) = length (data Y)"
  then show "model self = m" by (auto simp: init_def split: if_splits)
next
  fix self
  assume a: "init m scope h w classes kp lr adaptive bs epochs = Inr self
             \<and> int (ncols X) = h * w \<and> length (data X) = length (data Y)"
  then have f: "model self = m" "model_scope self = scope" "img_height self = h"
      "img_width self = w"
    and three: "m = ''BASIC'' \<or> m = ''DCNN'' \<or> m = ''STCNN''"
    by (auto simp: init_def split: if_splits)
  have cols: "int (ncols X) = img_height self * img_width self" using a f by simp
  have rows: "\<exists>y. Array2 Y = Array2 y \<and> length (data X) = length (data y)" using a by simp
  have built: "\<exists>rest. snd (train tf draws self (Array2 X) (Array2 Y) train_dir result_file)
                 = GraphBuilt (def_graph self) # rest"
  proof (cases rule: train_cases [of X self tf draws "Array2 Y" train_dir result_file])
    case bad_cols
    then show ?thesis using cols by simp
  next
    case bad_labels
    then show ?thesis using rows by simp
  next
    case zero_batch
    then show ?thesis by simp
  next
    case (loop ts err evs)
    then show ?thesis by simp
  qed
  have logits: "get_collection (def_graph self) (scope @ ''logits'') = [inference_graph self]"
    using def_graph_collections(1) [of self] by (simp add: f)
  have sel: "m = ''STCNN'' \<and> inference_graph self =
               build_inference_graph_stcnn self images_placeholder keep_prob_placeholder
           \<or> m = ''DCNN'' \<and> inference_graph self =
               build_inference_graph_dcnn self images_placeholder keep_prob_placeholder
           \<or> m = ''BASIC'' \<and> inference_graph self =
               build_inference_graph_basic self images_placeholder keep_prob_placeholder"
    using three f(1) by (auto simp: inference_graph_def)
  show "\<exists>g rest.
          snd (train tf draws self (Array2 X) (Array2 Y) train_dir result_file) = GraphBuilt g # rest
          \<and> (m = ''STCNN'' \<and> get_collection g (scope @ ''logits'') =
                [build_inference_graph_stcnn self images_placeholder keep_prob_placeholder]
             \<or> m = ''DCNN'' \<and> get_collection g (scope @ ''logits'') =
                [build_inference_graph_dcnn self images_placeholder keep_prob_placeholder]
             \<or> m = ''BASIC'' \<and> get_collection g (scope @ ''logits'') =
                [build_inference_graph_basic self images_placeholder keep_prob_placeholder])"
    using built logits sel by auto
qed

theorem init_model_dispatch_witness:
  "init ''VGG'' ''m'' 1 2 2 0.5 0.1 True 2 3 = Inl AssertionError
   \<and> init ''DCNN'' ''m'' 1 2 2 0.5 0.1 True 2 3 = Inr cfg_dcnn
   \<and> int (ncols X0) = 1 * 2 \<and> length (data X0) = length (data Y0)
   \<and> (\<exists>g rest.
         snd (train tf0 [2, 0] cfg_dcnn (Array2 X0) (Array2 Y0) ''dir'' ''file'') = GraphBuilt g # rest
         \<and> get_collection g (''m'' @ ''logits'') =
             [build_inference_graph_dcnn cfg_dcnn images_placeholder keep_prob_placeholder])"
proof -
  have bad: "init ''VGG'' ''m'' 1 2 2 0.5 0.1 True 2 3 = Inl AssertionError"
    using init_model_dispatch [of "''VGG''" "''m''" 1 2 2 "0.5" "0.1" True 2 3] by simp
  have ok: "init ''DCNN'' ''m'' 1 2 2 0.5 0.1 True 2 3 = Inr cfg_dcnn"
    by (simp add: init_def cfg_dcnn_def)
  have cols: "int (ncols X0) = 1 * 2" by (simp add: X0_def)
  have rows: "length (data X0) = length (data Y0)" by (simp add: X0_def Y0_def)
  note t = init_model_dispatch [of "''DCNN''" "''m''" 1 2 2 "0.5" "0.1" True 2 3 X0 Y0
             tf0 "[2, 0]" "''dir''" "''file''"]
  have "\<exists>g rest.
         snd (train tf0 [2, 0] cfg_dcnn (Array2 X0) (Array2 Y0) ''dir'' ''file'') = GraphBuilt g # rest
         \<and> get_collection g (''m'' @ ''logits'') =
             [build_inference_graph_dcnn cfg_dcnn images_placeholder keep_prob_placeholder]"
    using conjunct2 [OF t, rule_format, of cfg_dcnn] ok cols rows by simp
  then show ?thesis using bad ok cols rows by (intro conjI)
qed

section \<open>Checkpoints\<close>

lemma expected_saves_checkpoints:
  "map fst (expected_saves self prev ms) = checkpoints self prev ms"
  by (induction self prev ms rule: expected_saves.induct)
     (simp_all add: save_list_def checkpoint_due_def)

lemma expected_saves_None:
  "(e, None) \<in> set (expected_saves self prev ms) \<Longrightarrow> e = num_epoches self - 1"
  by (induction self prev ms rule: expected_saves.induct)
     (auto simp: save_list_def split: if_splits)

lemma expected_saves_low:
  "list_all (\<lambda>(e, m). m < 99.68) ms \<Longrightarrow>
   expected_saves self prev ms
     = map (\<lambda>e. (e, None)) (filter (\<lambda>e. e = num_epoches self - 1) (map fst ms))"
  by (induction self prev ms rule: expected_saves.induct)
     (auto simp: save_list_def)

lemma filter_eq_upto:
  fixes a k b :: int
  assumes "a \<le> k" and "k \<le> b"
  shows "filter (\<lambda>e. e = k) [a..b] = [k]"
proof -
  have s: "[a..b] = [a..k - 1] @ k # [k + 1..b]"
    using assms by (rule upto_split3)
  have l: "filter (\<lambda>e. e = k) [a..k - 1] = []" by (auto simp: filter_empty_conv)
  have r: "filter (\<lambda>e. e = k) [k + 1..b] = []" by (auto simp: filter_empty_conv)
  show ?thesis by (simp add: s l r)
qed

lemma list_all_mono_means:
  "list_all (\<lambda>(e, m). m < 99.68) (ms :: (int \<times> real) list)
   \<Longrightarrow> list_all (\<lambda>(e, m). m < 99.99) ms"
  by (induction ms) auto

text \<open>
  C5, as amended. The epochs at which a checkpoint is written are exactly the completed
  epochs whose mean accuracy is at least 99.68 and above that of the previous epoch (0.0
  before the first), or that are epoch \<open>num_epoches - 1\<close>; the checkpoint without a global
  step is never written at epoch \<open>num_epoches\<close>; and when \<open>num_epoches\<close> is at least 2, a
  run that ends without an error and whose epochs all stay below 99.68 writes exactly one
  checkpoint, at epoch \<open>num_epoches - 1\<close>.
\<close>

theorem checkpoints_written:
  fixes tf :: "('s, 'r) tf" and draws self X Y train_dir result_file
  defines "res \<equiv> train tf draws self X Y train_dir result_file"
  shows "map fst (saves (snd res)) = checkpoints self 0 (means (snd res))
       \<and> (num_epoches self, None) \<notin> set (saves (snd res))
       \<and> (2 \<le> num_epoches self \<and> fst res = None
            \<and> list_all (\<lambda>(e, m). m < 99.68) (means (snd res))
          \<longrightarrow> saves (snd res) = [(num_epoches self - 1, None)])"
proof (cases X)
  case (ArrayN d flat)
  then show ?thesis by (simp add: res_def train_not_two_dimensional)
next
  case (Array2 x)
  show ?thesis
  proof (cases rule: train_cases [of x self tf draws Y train_dir result_file])
    case bad_cols
    then show ?thesis by (simp add: res_def Array2)
  next
    case bad_labels
    then show ?thesis by (simp add: res_def Array2)
  next
    case zero_batch
    then show ?thesis by (simp add: res_def Array2)
  next
    case (loop ts err evs)
    note g = epoch_loop_general [OF loop(4)]
    have p: "saves (snd res) = saves evs" "means (snd res) = means evs" "fst res = err"
      using loop(5) by (simp_all add: res_def Array2)
    have s: "saves evs = expected_saves self 0 (means evs)" using g by simp
    have c1: "map fst (saves evs) = checkpoints self 0 (means evs)"
      by (simp add: s expected_saves_checkpoints)
    have c2: "(num_epoches self, None) \<notin> set (saves evs)"
      using expected_saves_None [of "num_epoches self" self 0 "means evs"] by (auto simp: s)
    have c3: "saves evs = [(num_epoches self - 1, None)]"
      if n: "2 \<le> num_epoches self" and e: "err = None"
        and low: "list_all (\<lambda>(e, m). m < 99.68) (means evs)"
    proof -
      have "map fst (means evs) = py_range 1 (num_epoches self + 1)"
        using loop(4) e list_all_mono_means [OF low] by (intro epoch_loop_all_epochs) auto
      then have "saves evs = map (\<lambda>e. (e, None))
                   (filter (\<lambda>e. e = num_epoches self - 1) [1..num_epoches self])"
        using expected_saves_low [OF low, of self 0] by (simp add: s py_range_def)
      also have "filter (\<lambda>e. e = num_epoches self - 1) [1..num_epoches self]
                 = [num_epoches self - 1]"
        using n by (intro filter_eq_upto) auto
      finally show ?thesis by simp
    qed
    show ?thesis using c1 c2 c3 by (simp add: p)
  qed
qed

theorem checkpoints_written_witness:
  "2 \<le> num_epoches cfg0
   \<and> fst (train tf0 [2, 0] cfg0 (Array2 X0) (Array2 Y0) ''dir'' ''file'') = None
   \<and> means (snd (train tf0 [2, 0] cfg0 (Array2 X0) (Array2 Y0) ''dir'' ''file'')) = [(1, 50), (2, 50), (3, 50)]
   \<and> saves (snd (train tf0 [2, 0] cfg0 (Array2 X0) (Array2 Y0) ''dir'' ''file'')) = [(num_epoches cfg0 - 1, None)]"
proof -
  have n: "2 \<le> num_epoches cfg0" by (simp add: cfg0_def)
  have e: "fst (train tf0 [2, 0] cfg0 (Array2 X0) (Array2 Y0) ''dir'' ''file'') = None" by code_simp
  have m: "means (snd (train tf0 [2, 0] cfg0 (Array2 X0) (Array2 Y0) ''dir'' ''file''))
             = [(1, 50), (2, 50), (3, 50)]"
    by code_simp
  show ?thesis
    using checkpoints_written [of tf0 "[2, 0]" cfg0 "Array2 X0" "Array2 Y0" "''dir''" "''file''"] n e m
    by simp
qed

text \<open>
  With a single epoch there is no epoch \<open>num_epoches - 1\<close>: a run that stays below
  99.68 completes and writes no checkpoint at all.
\<close>

theorem single_epoch_never_saves:
  "fst (train tf0 [2, 0] (cfg0\<lparr>num_epoches := 1\<rparr>) (Array2 X0) (Array2 Y0) ''dir'' ''file'') = None
   \<and> means (snd (train tf0 [2, 0] (cfg0\<lparr>num_epoches := 1\<rparr>) (Array2 X0) (Array2 Y0) ''dir'' ''file''))
       = [(1, 50)]
   \<and> saves (snd (train tf0 [2, 0] (cfg0\<lparr>num_epoches := 1\<rparr>) (Array2 X0) (Array2 Y0) ''dir'' ''file'')) = []"
  by code_simp

section \<open>The size check of \<open>train\<close>\<close>

text \<open>
  C9, as amended. With the calls into the tensor framework taken not to raise, \<open>train\<close>
  raises \<open>ValueError\<close> if and only if \<open>img_features\<close> is not a two-dimensional array,
  or its number of columns differs from \<open>img_height * img_width\<close>, or the labels cannot
  be appended to it along axis 1 because \<open>true_labels\<close> is not two-dimensional or has a
  different number of rows; and when it raises \<open>ValueError\<close> no graph has been built, no
  session created and no file written.
\<close>

theorem train_value_error:
  fixes tf :: "('s, 'r) tf" and draws self X Y train_dir result_file
  defines "res \<equiv> train tf draws self X Y train_dir result_file"
  shows "(fst res = Some ValueError \<longleftrightarrow>
            \<not> (\<exists>x y. X = Array2 x \<and> Y = Array2 y
                   \<and> int (ncols x) = img_height self * img_width self
                   \<and> length (data x) = length (data y)))
       \<and> (fst res = Some ValueError \<longrightarrow> snd res = [])"
proof (cases X)
  case (ArrayN d flat)
  then show ?thesis by (simp add: res_def train_not_two_dimensional)
next
  case (Array2 x)
  show ?thesis
  proof (cases rule: train_cases [of x self tf draws Y train_dir result_file])
    case bad_cols
    then show ?thesis by (simp add: res_def Array2)
  next
    case bad_labels
    then show ?thesis by (simp add: res_def Array2)
  next
    case zero_batch
    then show ?thesis by (simp add: res_def Array2)
  next
    case (loop ts err evs)
    have "err = None \<or> err = Some ZeroDivisionError"
      using epoch_loop_general [OF loop(4)] by simp
    then have ne: "err \<noteq> Some ValueError" by auto
    have ex: "\<exists>y. Y = Array2 y \<and> length (data x) = length (data y)"
      using train_set_of_Inr [OF loop(2)] by blast
    show ?thesis using ne ex loop(1) loop(5) by (simp add: res_def Array2)
  qed
qed

theorem train_value_error_witness:
  "y_vector = ArrayN 1 [0, 1, 0]
   \<and> fst (train tf0 [2, 0] cfg0 (Array2 X0) y_vector ''dir'' ''file'') = Some ValueError
   \<and> snd (train tf0 [2, 0] cfg0 (Array2 X0) y_vector ''dir'' ''file'') = []"
proof -
  have h: "\<not> (\<exists>x y. Array2 X0 = Array2 x \<and> y_vector = Array2 y
                   \<and> int (ncols x) = img_height cfg0 * img_width cfg0
                   \<and> length (data x) = length (data y))"
    by (simp add: y_vector_def)
  note t = train_value_error [of tf0 "[2, 0]" cfg0 "Array2 X0" y_vector "''dir''" "''file''"]
  have e: "fst (train tf0 [2, 0] cfg0 (Array2 X0) y_vector ''dir'' ''file'') = Some ValueError"
    using t h by blast
  have n: "snd (train tf0 [2, 0] cfg0 (Array2 X0) y_vector ''dir'' ''file'') = []"
    using t e by blast
  show ?thesis using e n by (simp add: y_vector_def)
qed

text \<open>
  The size check passes and \<open>ValueError\<close> is raised all the same: three feature rows
  of the right width with a vector of three labels, or with a single label row.
\<close>

theorem labels_value_error:
  "int (ncols X0) = img_height cfg0 * img_width cfg0
   \<and> train tf0 [2, 0] cfg0 (Array2 X0) y_vector ''dir'' ''file'' = (Some ValueError, [])
   \<and> train tf0 [2, 0] cfg0 (Array2 X0) (Array2 Y1) ''dir'' ''file'' = (Some ValueError, [])"
  by (simp add: train_def shape_def train_set_of_def np_append_axis1_def X0_def Y1_def
      y_vector_def cfg0_def)

section \<open>The pairing of features and labels\<close>

lemma concat_singletons:
  "\<forall>r\<in>set batch. length (f r) = 1 \<Longrightarrow> concat (map f batch) = map (\<lambda>r. hd (f r)) batch"
proof (induction batch)
  case Nil
  then show ?case by simp
next
  case (Cons r batch)
  then have "length (f r) = 1" by simp
  then have "f r = [hd (f r)]" by (cases "f r") auto
  then show ?case using Cons by (metis append_Cons append_Nil concat.simps(2) list.set_intros(2) list.simps(9))
qed

lemma appended_row:
  assumes "well_shaped X" and "well_shaped Y" and "ncols Y = 1"
    and "r \<in> set (map2 (@) (data X) (data Y))"
  shows "(take (ncols X) r, drop (ncols X) r) \<in> set (zip (data X) (data Y))
       \<and> length (drop (ncols X) r) = 1"
proof -
  obtain x y where xy: "(x, y) \<in> set (zip (data X) (data Y))" and r: "r = x @ y"
    using assms(4) by auto
  have "x \<in> set (data X)" using xy by (rule set_zip_leftD)
  then have lx: "length x = ncols X" using assms(1) by (simp add: well_shaped_def list_all_iff)
  have "y \<in> set (data Y)" using xy by (rule set_zip_rightD)
  then have ly: "length y = 1" using assms(2,3) by (simp add: well_shaped_def list_all_iff)
  show ?thesis using xy lx ly by (simp add: r)
qed

lemma split_appended:
  assumes "well_shaped X"
  shows "map (\<lambda>r. (take (ncols X) r, drop (ncols X) r)) (map2 (@) (data X) (data Y))
         = zip (data X) (data Y)"
proof -
  have "\<And>p. p \<in> set (zip (data X) (data Y)) \<Longrightarrow>
          (case p of (x, y) \<Rightarrow> (take (ncols X) (x @ y), drop (ncols X) (x @ y))) = p"
  proof -
    fix p assume p: "p \<in> set (zip (data X) (data Y))"
    obtain x y where xy: "p = (x, y)" by (cases p)
    have "x \<in> set (data X)" using p unfolding xy by (rule set_zip_leftD)
    then have "length x = ncols X" using assms by (simp add: well_shaped_def list_all_iff)
    then show "(case p of (x, y) \<Rightarrow> (take (ncols X) (x @ y), drop (ncols X) (x @ y))) = p"
      by (simp add: xy)
  qed
  then have "map (\<lambda>p. case p of (x, y) \<Rightarrow> (take (ncols X) (x @ y), drop (ncols X) (x @ y)))
               (zip (data X) (data Y)) = zip (data X) (data Y)"
    by (intro map_idI)
  then show ?thesis by (simp add: case_prod_unfold comp_def)
qed

lemma feed_from_paired:
  assumes "well_shaped X" and "well_shaped Y" and "ncols Y = 1"
    and "set ts = set (map2 (@) (data X) (data Y))"
    and "feed_from ts (ncols X) fd"
  shows "paired_feed X Y fd"
proof -
  obtain batch where b: "set batch \<subseteq> set ts"
    and im: "images_feed fd = map (take (ncols X)) batch"
    and la: "labels_feed fd = concat (map (drop (ncols X)) batch)"
    using assms(5) unfolding feed_from_def by blast
  have row: "(take (ncols X) r, drop (ncols X) r) \<in> set (zip (data X) (data Y))
             \<and> length (drop (ncols X) r) = 1" if "r \<in> set batch" for r
    using that b assms(4) appended_row [OF assms(1-3)] by blast
  have la2: "labels_feed fd = map (\<lambda>r. hd (drop (ncols X) r)) batch"
    unfolding la using row by (intro concat_singletons) blast
  have one: "[hd (drop (ncols X) r)] = drop (ncols X) r" if "r \<in> set batch" for r
    using row [OF that] by (cases "drop (ncols X) r") auto
  have z: "zip (images_feed fd) (map (\<lambda>l. [l]) (labels_feed fd))
           = map (\<lambda>r. (take (ncols X) r, [hd (drop (ncols X) r)])) batch"
    by (simp add: im la2 zip_map_map zip_same_conv_map comp_def)
  have "p \<in> set (zip (data X) (data Y))"
    if "p \<in> set (zip (images_feed fd) (map (\<lambda>l. [l]) (labels_feed fd)))" for p
  proof -
    have "p \<in> set (map (\<lambda>r. (take (ncols X) r, [hd (drop (ncols X) r)])) batch)"
      using that by (simp only: z)
    then obtain r where r: "r \<in> set batch"
      and p: "p = (take (ncols X) r, [hd (drop (ncols X) r)])"
      by auto
    show ?thesis using row [OF r] one [OF r] by (simp add: p)
  qed
  then show ?thesis
    by (simp add: paired_feed_def im la2 list_all_iff)
qed

text \<open>
  C10, as amended. For a two-dimensional feature array and a two-dimensional label array
  of as many rows, the rows of the permuted training set, split at column \<open>cols\<close>, are as
  a multiset the (feature row, label row) pairs of the input; and when the label array
  has one column, in every batch fed to an optimisation step the image row and the label
  at the same position are the feature row and the label of one and the same input row.
\<close>

theorem permutation_keeps_pairs:
  fixes tf :: "('s, 'r) tf"
  assumes "well_shaped X" and "well_shaped Y"
    and "length (data X) = length (data Y)"
  shows "(\<exists>ts. train_set_of draws X (Array2 Y) = Inr ts
            \<and> image_mset (\<lambda>r. (take (ncols X) r, drop (ncols X) r)) (mset ts)
                = mset (zip (data X) (data Y)))
       \<and> (ncols Y = 1 \<longrightarrow>
            list_all (paired_feed X Y)
              (feeds (snd (train tf draws self (Array2 X) (Array2 Y) train_dir result_file))))"
proof
  obtain ts where ts: "train_set_of draws X (Array2 Y) = Inr ts"
    using assms(3) by (simp add: train_set_of_def np_append_axis1_def)
  have m: "mset ts = mset (map2 (@) (data X) (data Y))"
    using train_set_of_Inr [OF ts] by auto
  have "image_mset (\<lambda>r. (take (ncols X) r, drop (ncols X) r)) (mset ts)
        = mset (map (\<lambda>r. (take (ncols X) r, drop (ncols X) r)) (map2 (@) (data X) (data Y)))"
    by (simp only: m mset_map)
  also have "\<dots> = mset (zip (data X) (data Y))"
    by (simp only: split_appended [OF assms(1)])
  finally show "\<exists>ts. train_set_of draws X (Array2 Y) = Inr ts
            \<and> image_mset (\<lambda>r. (take (ncols X) r, drop (ncols X) r)) (mset ts)
                = mset (zip (data X) (data Y))"
    using ts by blast
next
  show "ncols Y = 1 \<longrightarrow>
          list_all (paired_feed X Y)
            (feeds (snd (train tf draws self (Array2 X) (Array2 Y) train_dir result_file)))"
  proof
    assume one: "ncols Y = 1"
    show "list_all (paired_feed X Y)
            (feeds (snd (train tf draws self (Array2 X) (Array2 Y) train_dir result_file)))"
    proof (cases rule: train_cases [of X self tf draws "Array2 Y" train_dir result_file])
      case bad_cols
      then show ?thesis by simp
    next
      case bad_labels
      then show ?thesis by simp
    next
      case zero_batch
      then show ?thesis by simp
    next
      case (loop ts err evs)
      have "mset ts = mset (map2 (@) (data X) (data Y))"
        using train_set_of_Inr [OF loop(2)] by auto
      then have s: "set ts = set (map2 (@) (data X) (data Y))"
        by (metis set_mset_mset)
      have "list_all (feed_from ts (ncols X)) (feeds evs)"
        using epoch_loop_general [OF loop(4)] by simp
      then have "list_all (paired_feed X Y) (feeds evs)"
        using feed_from_paired [OF assms(1,2) one s] by (simp add: list_all_iff)
      then show ?thesis using loop(5) by simp
    qed
  qed
qed

theorem permutation_keeps_pairs_witness:
  "well_shaped X0 \<and> well_shaped Y0 \<and> length (data X0) = length (data Y0) \<and> ncols Y0 = 1
   \<and> train_set_of [2, 0] X0 (Array2 Y0) = Inr [[5, 6, 0], [1, 2, 0], [3, 4, 1]]
   \<and> list_all (paired_feed X0 Y0)
       (feeds (snd (train tf0 [2, 0] cfg0 (Array2 X0) (Array2 Y0) ''dir'' ''file'')))
   \<and> map images_feed (feeds (snd (train tf0 [2, 0] (cfg0\<lparr>num_epoches := 1\<rparr>)
                                      (Array2 X0) (Array2 Y0) ''dir'' ''file'')))
       = [[[5, 6], [1, 2]], [[3, 4], [5, 6]]]
   \<and> map labels_feed (feeds (snd (train tf0 [2, 0] (cfg0\<lparr>num_epoches := 1\<rparr>)
                                      (Array2 X0) (Array2 Y0) ''dir'' ''file'')))
       = [[0, 0], [1, 0]]"
proof -
  have h1: "well_shaped X0" by (simp add: well_shaped_def X0_def)
  have h2: "well_shaped Y0" by (simp add: well_shaped_def Y0_def)
  have h3: "ncols Y0 = 1" by (simp add: Y0_def)
  have h4: "length (data X0) = length (data Y0)" by (simp add: X0_def Y0_def)
  note t = permutation_keeps_pairs [OF h1 h2 h4, of "[2, 0]" tf0 cfg0 "''dir''" "''file''"]
  have p: "list_all (paired_feed X0 Y0)
             (feeds (snd (train tf0 [2, 0] cfg0 (Array2 X0) (Array2 Y0) ''dir'' ''file'')))"
    using conjunct2 [OF t] h3 by blast
  have ts: "train_set_of [2, 0] X0 (Array2 Y0) = Inr [[5, 6, 0], [1, 2, 0], [3, 4, 1]]"
    by code_simp
  have im: "map images_feed (feeds (snd (train tf0 [2, 0] (cfg0\<lparr>num_epoches := 1\<rparr>)
                                      (Array2 X0) (Array2 Y0) ''dir'' ''file'')))
       = [[[5, 6], [1, 2]], [[3, 4], [5, 6]]]"
    by code_simp
  have la: "map labels_feed (feeds (snd (train tf0 [2, 0] (cfg0\<lparr>num_epoches := 1\<rparr>)
                                      (Array2 X0) (Array2 Y0) ''dir'' ''file'')))
       = [[0, 0], [1, 0]]"
    by code_simp
  show ?thesis using h1 h2 h3 h4 ts p im la by (intro conjI)
qed

text \<open>
  With two label columns the flattened labels of a batch no longer line up with its
  image rows: two images come with four labels, and the label at position 1 belongs to
  the image at position 0.
\<close>

theorem two_label_columns_unpaired:
  "well_shaped X0 \<and> well_shaped Y2 \<and> length (data X0) = length (data Y2)
   \<and> map images_feed (feeds (snd (train tf0 [2, 0] (cfg0\<lparr>num_epoches := 1\<rparr>)
                                      (Array2 X0) (Array2 Y2) ''dir'' ''file'')))
       = [[[5, 6], [1, 2]], [[3, 4], [5, 6]]]
   \<and> map labels_feed (feeds (snd (train tf0 [2, 0] (cfg0\<lparr>num_epoches := 1\<rparr>)
                                      (Array2 X0) (Array2 Y2) ''dir'' ''file'')))
       = [[0, 9, 0, 7], [1, 8, 0, 9]]
   \<and> \<not> list_all (paired_feed X0 Y2)
          (feeds (snd (train tf0 [2, 0] (cfg0\<lparr>num_epoches := 1\<rparr>)
                         (Array2 X0) (Array2 Y2) ''dir'' ''file'')))"
  by code_simp

end
